theory Spec2Isabelle
  imports Complex_Main "HOL-Library.Multiset"
begin

section \<open>Float values\<close>

text \<open>
  The program computes on pandas/NumPy \<^verbatim>\<open>float64\<close> columns. A cell is modelled as a
  finite number, negative zero, one of the two infinities, or NaN (which pandas also uses
  for a missing value); \<open>Fin 0\<close> is the positive zero. The special values follow IEEE 754:
  anything with NaN is NaN; \<open>\<infinity> - \<infinity>\<close>, \<open>0 \<times> \<infinity>\<close>, \<open>0 / 0\<close> and \<open>\<infinity> / \<infinity>\<close> are NaN; the sign of
  a product or a quotient is the exclusive or of the signs of its operands, so that
  \<open>x / 0\<close> for \<open>x \<noteq> 0\<close> is the infinity of that sign; a sum that is exactly zero is
  positive unless both terms are negative zeros; every comparison with NaN is false and
  the two zeros compare equal.

  A finite result is classified as binary64 does: a magnitude that rounds to a value
  above the largest finite double (from \<open>2\<^sup>1\<^sup>0\<^sup>2\<^sup>4 - 2\<^sup>9\<^sup>7\<^sup>0\<close> on) is an infinity, one that
  rounds to zero (up to \<open>2\<^sup>-\<^sup>1\<^sup>0\<^sup>7\<^sup>5\<close>) is a zero with the sign of the exact result. Between the
  two the cell arithmetic of this section keeps the exact real value: the rounding of
  the last bit is modelled where a property depends on it, by \<open>round64\<close> below, and not in
  these operations.
\<close>

datatype fl = Fin real | NZero | PInf | NInf | NaN

definition overflow_threshold :: real where
  "overflow_threshold = 2 ^ 1024 - 2 ^ 970"

definition underflow_threshold :: real where
  "underflow_threshold = 1 / 2 ^ 1075"

text \<open>The float of sign \<open>neg\<close> for the exact result \<open>x\<close>.\<close>

definition to_fl :: "bool \<Rightarrow> real \<Rightarrow> fl" where
  "to_fl neg x =
     (if overflow_threshold \<le> \<bar>x\<bar> then (if neg then NInf else PInf)
      else if \<bar>x\<bar> \<le> underflow_threshold then (if neg then NZero else Fin 0)
      else Fin x)"

text \<open>The value of a finite cell, the sign bit, and the two classes of special cells.\<close>

fun val :: "fl \<Rightarrow> real" where
  "val (Fin a) = a"
| "val x = 0"

fun signbit :: "fl \<Rightarrow> bool" where
  "signbit (Fin a) = (a < 0)"
| "signbit NZero = True"
| "signbit NInf = True"
| "signbit x = False"

definition is_inf :: "fl \<Rightarrow> bool" where
  "is_inf x = (x = PInf \<or> x = NInf)"

definition is_zero :: "fl \<Rightarrow> bool" where
  "is_zero x = (x = Fin 0 \<or> x = NZero)"

fun fneg :: "fl \<Rightarrow> fl" where
  "fneg (Fin a) = (if a = 0 then NZero else Fin (- a))"
| "fneg NZero = Fin 0"
| "fneg PInf = NInf"
| "fneg NInf = PInf"
| "fneg NaN = NaN"

definition fadd :: "fl \<Rightarrow> fl \<Rightarrow> fl" where
  "fadd x y =
     (if x = NaN \<or> y = NaN then NaN
      else if is_inf x \<and> is_inf y then (if x = y then x else NaN)
      else if is_inf x then x
      else if is_inf y then y
      else if x = NZero \<and> y = NZero then NZero
      else to_fl (val x + val y < 0) (val x + val y))"

definition fsub :: "fl \<Rightarrow> fl \<Rightarrow> fl" where
  "fsub x y = fadd x (fneg y)"

definition fmul :: "fl \<Rightarrow> fl \<Rightarrow> fl" where
  "fmul x y =
     (if x = NaN \<or> y = NaN then NaN
      else if is_inf x \<or> is_inf y
      then (if is_zero x \<or> is_zero y then NaN
            else if signbit x \<noteq> signbit y then NInf else PInf)
      else to_fl (signbit x \<noteq> signbit y) (val x * val y))"

definition fdiv :: "fl \<Rightarrow> fl \<Rightarrow> fl" where
  "fdiv x y =
     (if x = NaN \<or> y = NaN then NaN
      else if is_inf x
      then (if is_inf y then NaN else if signbit x \<noteq> signbit y then NInf else PInf)
      else if is_inf y then (if signbit x \<noteq> signbit y then NZero else Fin 0)
      else if is_zero y
      then (if is_zero x then NaN else if signbit x \<noteq> signbit y then NInf else PInf)
      else to_fl (signbit x \<noteq> signbit y) (val x / val y))"

fun fsqrt :: "fl \<Rightarrow> fl" where
  "fsqrt (Fin a) = (if a < 0 then NaN else Fin (sqrt a))"
| "fsqrt NZero = NZero"
| "fsqrt PInf = PInf"
| "fsqrt NInf = NaN"
| "fsqrt NaN = NaN"

fun fabs :: "fl \<Rightarrow> fl" where
  "fabs (Fin a) = Fin \<bar>a\<bar>"
| "fabs NZero = Fin 0"
| "fabs PInf = PInf"
| "fabs NInf = PInf"
| "fabs NaN = NaN"

text \<open>The comparison \<^verbatim>\<open>x > y\<close>.\<close>

fun fgt :: "fl \<Rightarrow> fl \<Rightarrow> bool" where
  "fgt NaN y = False"
| "fgt x NaN = False"
| "fgt PInf PInf = False"
| "fgt PInf y = True"
| "fgt x PInf = False"
| "fgt NInf y = False"
| "fgt x NInf = True"
| "fgt x y = (val y < val x)"

definition fmax :: "fl \<Rightarrow> fl \<Rightarrow> fl" where
  "fmax x y = (if fgt y x then y else x)"

definition fmin :: "fl \<Rightarrow> fl \<Rightarrow> fl" where
  "fmin x y = (if fgt x y then y else x)"

text \<open>\<^verbatim>\<open>pd.isna\<close> / \<^verbatim>\<open>pd.notna\<close> on a float cell, and \<^verbatim>\<open>fillna(0)\<close>: only NaN is
  missing, an infinity is a value.\<close>

definition isna :: "fl \<Rightarrow> bool" where
  "isna x = (x = NaN)"

definition fillna0 :: "fl \<Rightarrow> fl" where
  "fillna0 x = (if isna x then Fin 0 else x)"

text \<open>\<^verbatim>\<open>round(x, n)\<close>: to the nearest multiple of \<open>10\<^sup>-\<^sup>n\<close>, a tie to the even one, a
  negative number that rounds to zero giving the negative zero; NaN, the infinities and
  the negative zero are returned as they are.\<close>

definition round_half_even :: "real \<Rightarrow> int" where
  "round_half_even x =
     (let f = \<lfloor>x\<rfloor>; d = x - of_int f
      in if d < 1 / 2 then f else if 1 / 2 < d then f + 1
         else if even f then f else f + 1)"

fun fround :: "fl \<Rightarrow> nat \<Rightarrow> fl" where
  "fround (Fin a) n =
     (if a < 0 \<and> round_half_even (a * 10 ^ n) = 0 then NZero
      else Fin (of_int (round_half_even (a * 10 ^ n)) / 10 ^ n))"
| "fround x n = x"

section \<open>Rounding to binary64\<close>

text \<open>
  \<open>r64 x\<close> is the binary64 number nearest to the real \<open>x\<close>, a tie going to the even
  significand: with \<open>e\<close> the binary exponent of \<open>x\<close> (not below that of the subnormal
  numbers, \<open>-1022\<close>), the doubles around \<open>x\<close> are the multiples of \<open>2\<^sup>e\<^sup>-\<^sup>5\<^sup>2\<close>. \<open>round64\<close>
  rounds a cell, with overflow to an infinity and underflow to a signed zero, and
  \<open>add64\<close> ... \<open>sqrt64\<close> are the correctly rounded operations of the hardware.
\<close>

definition pow2 :: "int \<Rightarrow> real" where
  "pow2 k = (if 0 \<le> k then 2 ^ nat k else 1 / 2 ^ nat (- k))"

definition r64 :: "real \<Rightarrow> real" where
  "r64 x =
     (if x = 0 then 0
      else let e = max \<lfloor>log 2 \<bar>x\<bar>\<rfloor> (- 1022); u = pow2 (e - 52)
           in of_int (round_half_even (x / u)) * u)"

fun round64 :: "fl \<Rightarrow> fl" where
  "round64 (Fin a) = to_fl (a < 0) (r64 a)"
| "round64 x = x"

definition add64 :: "fl \<Rightarrow> fl \<Rightarrow> fl" where
  "add64 x y = round64 (fadd x y)"

definition sub64 :: "fl \<Rightarrow> fl \<Rightarrow> fl" where
  "sub64 x y = round64 (fsub x y)"

definition mul64 :: "fl \<Rightarrow> fl \<Rightarrow> fl" where
  "mul64 x y = round64 (fmul x y)"

definition div64 :: "fl \<Rightarrow> fl \<Rightarrow> fl" where
  "div64 x y = round64 (fdiv x y)"

definition sqrt64 :: "fl \<Rightarrow> fl" where
  "sqrt64 x = round64 (fsqrt x)"

section \<open>pandas reductions and rolling windows\<close>

text \<open>
  \<^verbatim>\<open>Series.sum/mean/max/min/std\<close> skip NaN (\<^verbatim>\<open>skipna=True\<close>); over no valid
  observation \<^verbatim>\<open>mean\<close>, \<^verbatim>\<open>max\<close> and \<^verbatim>\<open>min\<close> are NaN; \<^verbatim>\<open>std\<close> is the sample standard
  deviation (\<^verbatim>\<open>ddof=1\<close>), NaN below two observations.
\<close>

definition valid :: "fl list \<Rightarrow> fl list" where
  "valid xs = filter (\<lambda>x. \<not> isna x) xs"

definition fsum :: "fl list \<Rightarrow> fl" where
  "fsum xs = foldl fadd (Fin 0) xs"

definition pd_mean :: "fl list \<Rightarrow> fl" where
  "pd_mean xs =
     (let ys = valid xs
      in if ys = [] then NaN else fdiv (fsum ys) (Fin (real (length ys))))"

definition pd_max :: "fl list \<Rightarrow> fl" where
  "pd_max xs = (case valid xs of [] \<Rightarrow> NaN | y # ys \<Rightarrow> foldl fmax y ys)"

definition pd_min :: "fl list \<Rightarrow> fl" where
  "pd_min xs = (case valid xs of [] \<Rightarrow> NaN | y # ys \<Rightarrow> foldl fmin y ys)"

definition pd_std :: "fl list \<Rightarrow> fl" where
  "pd_std xs =
     (let ys = valid xs; n = length ys; m = pd_mean ys
      in if n < 2 then NaN
         else fsqrt (fdiv (fsum (map (\<lambda>x. fmul (fsub x m) (fsub x m)) ys))
                          (Fin (real (n - 1)))))"

text \<open>
  \<^verbatim>\<open>s.rolling(window=w, min_periods=1).agg()\<close>: pandas first replaces the infinities of
  the column by NaN (\<^verbatim>\<open>_prep_values\<close>); the value at position \<open>i\<close> then aggregates the
  cells at positions \<open>i - w + 1 .. i\<close> that exist (fewer at the head of the series), and
  is NaN when the window holds no valid observation.
\<close>

definition window_at :: "nat \<Rightarrow> 'a list \<Rightarrow> nat \<Rightarrow> 'a list" where
  "window_at w xs i = drop (Suc i - w) (take (Suc i) xs)"

definition prep_values :: "fl list \<Rightarrow> fl list" where
  "prep_values xs = map (\<lambda>x. if is_inf x then NaN else x) xs"

definition rolling :: "nat \<Rightarrow> (fl list \<Rightarrow> fl) \<Rightarrow> fl list \<Rightarrow> fl list" where
  "rolling w agg xs = map (\<lambda>i. agg (window_at w (prep_values xs) i)) [0..<length xs]"

text \<open>\<^verbatim>\<open>ffill\<close> carries the last valid value forward; \<^verbatim>\<open>bfill\<close> is the same from the
  end of the column.\<close>

fun ffill_from :: "fl \<Rightarrow> fl list \<Rightarrow> fl list" where
  "ffill_from l [] = []"
| "ffill_from l (x # xs) = (if isna x then l # ffill_from l xs else x # ffill_from x xs)"

definition ffill :: "fl list \<Rightarrow> fl list" where
  "ffill xs = ffill_from NaN xs"

definition bfill :: "fl list \<Rightarrow> fl list" where
  "bfill xs = rev (ffill (rev xs))"

text \<open>\<^verbatim>\<open>df.tail(n)\<close>: the last \<open>n\<close> rows; for a negative \<open>n\<close>, all rows but the first
  \<open>-n\<close>.\<close>

definition tail :: "int \<Rightarrow> 'a list \<Rightarrow> 'a list" where
  "tail n xs = (if 0 \<le> n then drop (length xs - nat n) xs else drop (nat (- n)) xs)"

section \<open>Data frames\<close>

text \<open>
  A frame is its list of column names and its rows. A row carries one cell for each of
  the nine columns the program reads or writes; a cell of a column the frame does not
  have is never read. The date of a bar is a day number. The provider's further
  columns (dividends, splits) are not modelled.
\<close>

datatype col = Date | Open | High | Low | Close | Volume | Daily_return | Ma_7 | Volatility_score

record bar =
  date :: int
  open' :: fl
  high :: fl
  low :: fl
  close :: fl
  volume :: fl
  daily_return :: fl
  ma_7 :: fl
  volatility_score :: fl

record frame =
  columns :: "col list"
  rows :: "bar list"

definition has :: "col \<Rightarrow> frame \<Rightarrow> bool" where
  "has c df = (c \<in> set (columns df))"

text \<open>\<^verbatim>\<open>df.empty\<close>: no row or no column.\<close>

definition empty_df :: "frame \<Rightarrow> bool" where
  "empty_df df = (rows df = [] \<or> columns df = [])"

definition add_col :: "col \<Rightarrow> col list \<Rightarrow> col list" where
  "add_col c cs = (if c \<in> set cs then cs else cs @ [c])"

fun get_cell :: "col \<Rightarrow> bar \<Rightarrow> fl" where
  "get_cell Date r = Fin (of_int (date r))"
| "get_cell Open r = open' r"
| "get_cell High r = high r"
| "get_cell Low r = low r"
| "get_cell Close r = close r"
| "get_cell Volume r = volume r"
| "get_cell Daily_return r = daily_return r"
| "get_cell Ma_7 r = ma_7 r"
| "get_cell Volatility_score r = volatility_score r"

fun set_cell :: "col \<Rightarrow> fl \<Rightarrow> bar \<Rightarrow> bar" where
  "set_cell Date v r = r"
| "set_cell Open v r = r\<lparr>open' := v\<rparr>"
| "set_cell High v r = r\<lparr>high := v\<rparr>"
| "set_cell Low v r = r\<lparr>low := v\<rparr>"
| "set_cell Close v r = r\<lparr>close := v\<rparr>"
| "set_cell Volume v r = r\<lparr>volume := v\<rparr>"
| "set_cell Daily_return v r = r\<lparr>daily_return := v\<rparr>"
| "set_cell Ma_7 v r = r\<lparr>ma_7 := v\<rparr>"
| "set_cell Volatility_score v r = r\<lparr>volatility_score := v\<rparr>"

text \<open>\<^verbatim>\<open>df[c] = f(df[c])\<close> for a column transformer \<open>f\<close> that keeps the length, and
  \<^verbatim>\<open>df[c] = values\<close> for a series on the frame's own index.\<close>

definition assign :: "col \<Rightarrow> fl list \<Rightarrow> bar list \<Rightarrow> bar list" where
  "assign c vs rs = map (\<lambda>i. set_cell c (vs ! i) (rs ! i)) [0..<length rs]"

definition map_column :: "col \<Rightarrow> (fl list \<Rightarrow> fl list) \<Rightarrow> bar list \<Rightarrow> bar list" where
  "map_column c f rs = assign c (f (map (get_cell c) rs)) rs"

section \<open>The processor (\<^verbatim>\<open>data/processor.py\<close>)\<close>

text \<open>\<^verbatim>\<open>dropna(how='all')\<close> drops a row whose every cell is NaN; a date is never NaN.\<close>

definition all_na :: "col list \<Rightarrow> bar \<Rightarrow> bool" where
  "all_na cs r = list_all (\<lambda>c. c \<noteq> Date \<and> isna (get_cell c r)) cs"

definition price_columns :: "col list" where
  "price_columns = [Open, High, Low, Close, Volume]"

text \<open>
  \<^verbatim>\<open>clean_data\<close>: returns \<^verbatim>\<open>None\<close> and an empty frame as they are; otherwise drops the
  all-NaN rows, forward-fills the price columns the frame has, back-fills every column,
  keeps the rows with \<^verbatim>\<open>close > 0\<close> and sorts by date. \<^verbatim>\<open>sort_values\<close> is modelled by
  the stable \<open>sort_key\<close>; pandas leaves the order of rows with equal dates open.
\<close>

definition clean_data :: "frame option \<Rightarrow> frame option" where
  "clean_data d =
     (case d of
        None \<Rightarrow> None
      | Some df \<Rightarrow>
          if empty_df df then Some df
          else
            let cs = columns df;
                r1 = filter (\<lambda>r. \<not> all_na cs r) (rows df);
                r2 = foldl (\<lambda>rs c. if c \<in> set cs then map_column c ffill rs else rs)
                       r1 price_columns;
                r3 = foldl (\<lambda>rs c. map_column c bfill rs) r2 cs;
                r4 = (if Close \<in> set cs then filter (\<lambda>r. fgt (close r) (Fin 0)) r3 else r3);
                r5 = (if Date \<in> set cs then sort_key date r4 else r4)
            in Some (df\<lparr>rows := r5\<rparr>))"

text \<open>\<^verbatim>\<open>calculate_daily_return\<close>: \<^verbatim>\<open>(close - open) / open\<close> row by row, then
  \<^verbatim>\<open>fillna(0)\<close>; a frame without an open or a close column is returned unchanged.\<close>

definition calculate_daily_return :: "frame \<Rightarrow> frame" where
  "calculate_daily_return df =
     (if has Open df \<and> has Close df
      then df\<lparr>columns := add_col Daily_return (columns df),
              rows := map (\<lambda>r. r\<lparr>daily_return :=
                             fillna0 (fdiv (fsub (close r) (open' r)) (open' r))\<rparr>) (rows df)\<rparr>
      else df)"

text \<open>\<^verbatim>\<open>calculate_moving_average\<close>: the rolling mean of \<^verbatim>\<open>close\<close> with
  \<^verbatim>\<open>min_periods=1\<close>. The source names the new column \<^verbatim>\<open>ma_<window>\<close>; the program only
  ever passes the window 7, and the model has the one column \<open>Ma_7\<close>.\<close>

definition calculate_moving_average :: "frame \<Rightarrow> nat \<Rightarrow> frame" where
  "calculate_moving_average df window =
     (if has Close df
      then df\<lparr>columns := add_col Ma_7 (columns df),
              rows := assign Ma_7 (rolling window pd_mean (map close (rows df))) (rows df)\<rparr>
      else df)"

text \<open>\<^verbatim>\<open>calculate_volatility_score\<close>: the rolling sample standard deviation of the daily
  return, times \<open>\<surd>252\<close>, then \<^verbatim>\<open>fillna(0)\<close>.\<close>

definition calculate_volatility_score :: "frame \<Rightarrow> nat \<Rightarrow> frame" where
  "calculate_volatility_score df window =
     (let df1 = (if \<not> has Daily_return df then calculate_daily_return df else df)
      in if has Daily_return df1
         then df1\<lparr>columns := add_col Volatility_score (columns df1),
                  rows := assign Volatility_score
                            (map (\<lambda>v. fillna0 (fmul v (Fin (sqrt 252))))
                               (rolling window pd_std (map daily_return (rows df1))))
                            (rows df1)\<rparr>
         else df1)"

definition process_data :: "frame option \<Rightarrow> frame option" where
  "process_data d =
     (case d of
        None \<Rightarrow> None
      | Some df \<Rightarrow>
          if empty_df df then Some df
          else
            (case clean_data (Some df) of
               None \<Rightarrow> None
             | Some c \<Rightarrow>
                 Some (calculate_volatility_score
                         (calculate_moving_average (calculate_daily_return c) 7) 30)))"

record week52 =
  high_52w :: fl
  low_52w :: fl

text \<open>\<^verbatim>\<open>calculate_52week_high_low\<close>: the maximum of \<^verbatim>\<open>high\<close> and the minimum of \<^verbatim>\<open>low\<close>
  over the last 252 rows, or over all rows of a shorter frame.\<close>

definition calculate_52week_high_low :: "frame \<Rightarrow> week52" where
  "calculate_52week_high_low df =
     (if has High df \<and> has Low df
      then let df_52w = (if 252 \<le> length (rows df) then tail 252 (rows df) else rows df)
           in \<lparr>high_52w = pd_max (map high df_52w), low_52w = pd_min (map low df_52w)\<rparr>
      else \<lparr>high_52w = Fin 0, low_52w = Fin 0\<rparr>)"

record summary = week52 +
  avg_close :: fl
  current_close :: fl

record summary_stats = summary +
  total_records :: nat
  date_range :: "(int \<times> int) option"

text \<open>\<^verbatim>\<open>get_summary_stats\<close>; the empty dictionary it returns for \<^verbatim>\<open>None\<close> or an empty
  frame is \<open>None\<close>.\<close>

definition get_summary_stats :: "frame option \<Rightarrow> summary_stats option" where
  "get_summary_stats d =
     (case d of
        None \<Rightarrow> None
      | Some df \<Rightarrow>
          if empty_df df then None
          else
            let w = calculate_52week_high_low df;
                lc = close (last (rows df))
            in Some \<lparr>high_52w = high_52w w, low_52w = low_52w w,
                     avg_close = (if has Close df then pd_mean (map close (rows df)) else Fin 0),
                     current_close = (if has Close df \<and> \<not> isna lc then lc else Fin 0),
                     total_records = length (rows df),
                     date_range = (if has Date df
                                   then Some (Min (set (map date (rows df))),
                                              Max (set (map date (rows df))))
                                   else None)\<rparr>)"

section \<open>The helpers (\<^verbatim>\<open>utils/helpers.py\<close>)\<close>

text \<open>\<^verbatim>\<open>pd.merge(df1[['date','close']], df2[['date','close']], on='date', how='inner')\<close>:
  one row \<^verbatim>\<open>(close_1, close_2)\<close> for every pair of a left and a right row with the same
  date, in the order of the left frame.\<close>

definition merge_on_date :: "bar list \<Rightarrow> bar list \<Rightarrow> (fl \<times> fl) list" where
  "merge_on_date r1 r2 =
     concat (map (\<lambda>a. map (\<lambda>b. (close a, close b)) (filter (\<lambda>b. date b = date a) r2)) r1)"

text \<open>\<^verbatim>\<open>merged.dropna(subset=['close_1', 'close_2'])\<close>.\<close>

definition dropna_pairs :: "(fl \<times> fl) list \<Rightarrow> (fl \<times> fl) list" where
  "dropna_pairs ps = filter (\<lambda>p. \<not> isna (fst p) \<and> \<not> isna (snd p)) ps"

text \<open>
  \<^verbatim>\<open>Series.corr\<close> on two aligned columns without NaN is \<^verbatim>\<open>np.corrcoef(a, b)[0, 1]\<close>. NumPy
  computes it in \<^verbatim>\<open>float64\<close>, every operation rounded: the two means, the deviations
  from them (\<^verbatim>\<open>X -= avg\<close>), the products \<^verbatim>\<open>dot(X, X.T)\<close> scaled by
  \<^verbatim>\<open>true_divide(1, n - 1)\<close>, the standard deviations \<^verbatim>\<open>sqrt(diag(c))\<close>, and then
  \<^verbatim>\<open>c /= stddev[:, None]\<close> followed by \<^verbatim>\<open>c /= stddev[None, :]\<close>: the covariance is divided
  by the deviation of the first column and the quotient by that of the second. The
  result is clipped to \<open>[-1, 1]\<close>; a NaN stays. The sums are taken from left to right
  (NumPy and the BLAS behind \<^verbatim>\<open>dot\<close> may associate the terms of a long sum differently).
\<close>

fun sum64 :: "fl list \<Rightarrow> fl" where
  "sum64 [] = Fin 0"
| "sum64 (x # xs) = foldl add64 x xs"

definition dot64 :: "fl list \<Rightarrow> fl list \<Rightarrow> fl" where
  "dot64 xs ys = sum64 (map (\<lambda>p. mul64 (fst p) (snd p)) (zip xs ys))"

definition clip :: "fl \<Rightarrow> fl" where
  "clip x = (if fgt (Fin (- 1)) x then Fin (- 1) else if fgt x (Fin 1) then Fin 1 else x)"

definition np_corrcoef :: "fl list \<Rightarrow> fl list \<Rightarrow> fl" where
  "np_corrcoef xs ys =
     (let n = Fin (real (length xs));
          dx = map (\<lambda>x. sub64 x (div64 (sum64 xs) n)) xs;
          dy = map (\<lambda>y. sub64 y (div64 (sum64 ys) n)) ys;
          fact = div64 (Fin 1) (Fin (real (length xs - 1)));
          c00 = mul64 (dot64 dx dx) fact;
          c01 = mul64 (dot64 dx dy) fact;
          c11 = mul64 (dot64 dy dy) fact
      in clip (div64 (div64 c01 (sqrt64 c00)) (sqrt64 c11)))"

text \<open>\<^verbatim>\<open>calculate_correlation\<close>. No operation of the body raises on a frame of the
  model, so the \<^verbatim>\<open>except\<close> branch (which also returns 0.0) has no case of its own. The
  result is never NaN or infinite and is given as a real number (the two zeros are the
  same answer).\<close>

definition calculate_correlation :: "frame option \<Rightarrow> frame option \<Rightarrow> real" where
  "calculate_correlation d1 d2 =
     (case (d1, d2) of
        (Some df1, Some df2) \<Rightarrow>
          if empty_df df1 \<or> empty_df df2 then 0
          else if \<not> has Date df1 \<or> \<not> has Close df1 then 0
          else if \<not> has Date df2 \<or> \<not> has Close df2 then 0
          else
            let merged = merge_on_date (rows df1) (rows df2)
            in if length merged < 2 then 0
               else
                 let merged2 = dropna_pairs merged
                 in if length merged2 < 2 then 0
                    else (case np_corrcoef (map fst merged2) (map snd merged2) of
                            Fin r \<Rightarrow> max (- 1) (min 1 r)
                          | NZero \<Rightarrow> 0
                          | PInf \<Rightarrow> 1
                          | NInf \<Rightarrow> - 1
                          | NaN \<Rightarrow> 0)
      | _ \<Rightarrow> 0)"

record metrics =
  total_return_pct :: fl
  avg_daily_return :: fl
  volatility :: fl
  max_price :: fl
  min_price :: fl
  avg_price :: fl

text \<open>\<^verbatim>\<open>calculate_performance_metrics\<close>; the empty dictionary (for \<^verbatim>\<open>None\<close>, an empty
  frame, or the \<^verbatim>\<open>KeyError\<close> of a frame without a close column) is \<open>None\<close>.\<close>

definition calculate_performance_metrics :: "frame option \<Rightarrow> metrics option" where
  "calculate_performance_metrics d =
     (case d of
        None \<Rightarrow> None
      | Some df \<Rightarrow>
          if empty_df df then None
          else if \<not> has Close df then None
          else
            let first_close = close (hd (rows df));
                last_close = close (last (rows df));
                total_return =
                  (if fgt first_close (Fin 0)
                   then fmul (fdiv (fsub last_close first_close) first_close) (Fin 100)
                   else Fin 0);
                dr = map daily_return (rows df);
                cl = map close (rows df)
            in Some \<lparr>total_return_pct = fround total_return 2,
                     avg_daily_return = fround (if has Daily_return df then pd_mean dr else Fin 0) 4,
                     volatility = fround (if has Daily_return df then pd_std dr else Fin 0) 4,
                     max_price = pd_max cl, min_price = pd_min cl, avg_price = pd_mean cl\<rparr>)"

section \<open>The collector (\<^verbatim>\<open>data/collector.py\<close>)\<close>

text \<open>\<^verbatim>\<open>str.upper\<close> and \<^verbatim>\<open>str.strip\<close> on ASCII strings.\<close>

definition upper_char :: "char \<Rightarrow> char" where
  "upper_char c =
     (case map_of (zip ''abcdefghijklmnopqrstuvwxyz'' ''ABCDEFGHIJKLMNOPQRSTUVWXYZ'') c of
        Some u \<Rightarrow> u
      | None \<Rightarrow> c)"

definition upper :: "string \<Rightarrow> string" where
  "upper s = map upper_char s"

definition is_space :: "char \<Rightarrow> bool" where
  "is_space c =
     (c \<in> set [CHR 0x09, CHR 0x0A, CHR 0x0B, CHR 0x0C, CHR 0x0D,
                CHR 0x1C, CHR 0x1D, CHR 0x1E, CHR 0x1F, CHR 0x20])"

definition strip :: "string \<Rightarrow> string" where
  "strip s = rev (dropWhile is_space (rev (dropWhile is_space s)))"

definition endswith :: "string \<Rightarrow> string \<Rightarrow> bool" where
  "endswith s t = (length t \<le> length s \<and> drop (length s - length t) s = t)"

definition INDIAN_STOCKS :: "(string \<times> string) list" where
  "INDIAN_STOCKS =
     [(''TCS'', ''TCS.NS''), (''INFY'', ''INFY.NS''), (''RELIANCE'', ''RELIANCE.NS''),
      (''HDFCBANK'', ''HDFCBANK.NS''), (''ICICIBANK'', ''ICICIBANK.NS''),
      (''WIPRO'', ''WIPRO.NS''), (''HCLTECH'', ''HCLTECH.NS'')]"

definition get_available_companies :: "string list" where
  "get_available_companies = map fst INDIAN_STOCKS"

text \<open>
  \<^verbatim>\<open>fetch_stock_data\<close> for the period \<^verbatim>\<open>"1y"\<close>, the only one the routes use. The provider
  is the parameter \<open>history\<close>: the frame \<^verbatim>\<open>yf.Ticker(s).history(...)\<close> gives for the
  identifier \<open>s\<close>, already with lower-case column names and calendar dates, or \<open>None\<close>
  when the call raises. An empty answer for an identifier ending in \<^verbatim>\<open>.NS\<close> is retried
  once with the plain symbol; an empty answer or an exception is \<^verbatim>\<open>None\<close>.
\<close>

definition fetch_stock_data :: "(string \<Rightarrow> frame option) \<Rightarrow> string \<Rightarrow> frame option" where
  "fetch_stock_data history symbol =
     (let yf_symbol = (case map_of INDIAN_STOCKS (upper symbol) of Some s \<Rightarrow> s | None \<Rightarrow> symbol)
      in case history yf_symbol of
           None \<Rightarrow> None
         | Some df \<Rightarrow>
             if empty_df df \<and> endswith yf_symbol ''.NS''
             then (case history symbol of
                     None \<Rightarrow> None
                   | Some df2 \<Rightarrow> if empty_df df2 then None else Some df2)
             else if empty_df df then None else Some df)"

section \<open>The store (\<^verbatim>\<open>models/database.py\<close>)\<close>

text \<open>
  A row of the table \<^verbatim>\<open>stock_data\<close> is its symbol and the nine columns of a bar (the
  surrogate \<^verbatim>\<open>id\<close> is left out); a nullable column holding NULL is NaN. The table is the
  list of its rows.
\<close>

type_synonym stock_row = "string \<times> bar"

definition key :: "stock_row \<Rightarrow> string \<times> int" where
  "key r = (fst r, date (snd r))"

text \<open>The constraint \<^verbatim>\<open>UniqueConstraint('symbol', 'date')\<close>: a batch is rejected when two
  of its rows, or one of its rows and a stored row, agree on symbol and date.\<close>

definition violates_unique :: "stock_row list \<Rightarrow> stock_row list \<Rightarrow> bool" where
  "violates_unique db new =
     (\<not> distinct (map key new) \<or> list_ex (\<lambda>k. k \<in> set (map key db)) (map key new))"

text \<open>
  \<^verbatim>\<open>db.bulk_save_objects(new); db.commit()\<close> in one transaction. The environment may make
  the write fail: \<open>IntegrityFault\<close> is an \<^verbatim>\<open>IntegrityError\<close> from outside the model (a
  concurrent insert, a NOT NULL column), \<open>OtherFault\<close> any other exception of the
  database layer. A failed write leaves the table as it was (\<^verbatim>\<open>db.rollback()\<close>).
\<close>

datatype fault = NoFault | IntegrityFault | OtherFault

datatype write_result = Committed | IntegrityError | OtherError

definition bulk_save :: "fault \<Rightarrow> stock_row list \<Rightarrow> stock_row list \<Rightarrow> write_result \<times> stock_row list" where
  "bulk_save f db new =
     (case f of
        OtherFault \<Rightarrow> (OtherError, db)
      | IntegrityFault \<Rightarrow> (IntegrityError, db)
      | NoFault \<Rightarrow> if violates_unique db new then (IntegrityError, db) else (Committed, db @ new))"

section \<open>The routes (\<^verbatim>\<open>api/routes.py\<close>)\<close>

record env =
  today :: int
  history :: "string \<Rightarrow> frame option"
  write_fault :: fault

datatype http_error = HTTPException nat

datatype event = Fetch string | Commit nat | Rollback | LogWarning | LogError

record response =
  resp_symbol :: string
  resp_days :: nat
  resp_columns :: "col list"
  resp_data :: "bar list"

record outcome =
  result :: "http_error + response"
  store :: "stock_row list"
  trace :: "event list"

definition all_columns :: "col list" where
  "all_columns = [Date, Open, High, Low, Close, Volume, Daily_return, Ma_7, Volatility_score]"

text \<open>The query of \<^verbatim>\<open>get_stock_data\<close>: the rows of the symbol from the cutoff date on,
  latest first.\<close>

definition db_query :: "stock_row list \<Rightarrow> string \<Rightarrow> int \<Rightarrow> stock_row list" where
  "db_query db symbol cutoff_date =
     rev (sort_key (\<lambda>r. date (snd r))
            (filter (\<lambda>r. fst r = symbol \<and> cutoff_date \<le> date (snd r)) db))"

text \<open>The query of \<^verbatim>\<open>get_stock_summary\<close> and \<^verbatim>\<open>compare_stocks\<close>: all rows of the symbol,
  earliest first.\<close>

definition db_all :: "stock_row list \<Rightarrow> string \<Rightarrow> stock_row list" where
  "db_all db symbol = sort_key (\<lambda>r. date (snd r)) (filter (\<lambda>r. fst r = symbol) db)"

text \<open>\<^verbatim>\<open>int(x)\<close> on a finite float truncates towards zero.\<close>

definition py_int :: "real \<Rightarrow> int" where
  "py_int v = (if 0 \<le> v then \<lfloor>v\<rfloor> else \<lceil>v\<rceil>)"

text \<open>
  The \<^verbatim>\<open>StockData(...)\<close> built from a row of the frame: \<^verbatim>\<open>row.get\<close> of a missing derived
  column is \<^verbatim>\<open>None\<close>, stored as NULL. Building it raises (\<open>to_record\<close> is \<open>None\<close>) when
  \<^verbatim>\<open>row["open"]\<close> ... \<^verbatim>\<open>row["volume"]\<close> meet a missing column (\<^verbatim>\<open>KeyError\<close>) or \<^verbatim>\<open>int\<close>
  an infinite volume (\<^verbatim>\<open>OverflowError\<close>).
\<close>

definition stock_data :: "string \<Rightarrow> col list \<Rightarrow> bar \<Rightarrow> stock_row" where
  "stock_data symbol cs r =
     (symbol,
      \<lparr>date = date r, open' = open' r, high = high r, low = low r, close = close r,
       volume = (case volume r of Fin v \<Rightarrow> Fin (of_int (py_int v)) | NZero \<Rightarrow> Fin 0 | x \<Rightarrow> x),
       daily_return = (if Daily_return \<in> set cs then daily_return r else NaN),
       ma_7 = (if Ma_7 \<in> set cs then ma_7 r else NaN),
       volatility_score = (if Volatility_score \<in> set cs then volatility_score r else NaN)\<rparr>)"

definition to_record :: "string \<Rightarrow> col list \<Rightarrow> bar \<Rightarrow> stock_row option" where
  "to_record symbol cs r =
     (if \<not> (Open \<in> set cs \<and> High \<in> set cs \<and> Low \<in> set cs \<and> Close \<in> set cs \<and> Volume \<in> set cs)
      then None
      else if volume r = PInf \<or> volume r = NInf then None
      else Some (stock_data symbol cs r))"

text \<open>The loop over \<^verbatim>\<open>df.iterrows()\<close> that collects \<^verbatim>\<open>new_records\<close>: a row whose date is
  among \<^verbatim>\<open>existing_dates\<close> is skipped.\<close>

fun new_records :: "string \<Rightarrow> col list \<Rightarrow> int list \<Rightarrow> bar list \<Rightarrow> stock_row list option" where
  "new_records symbol cs existing_dates [] = Some []"
| "new_records symbol cs existing_dates (r # rs) =
     (if date r \<in> set existing_dates then new_records symbol cs existing_dates rs
      else (case to_record symbol cs r of
              None \<Rightarrow> None
            | Some x \<Rightarrow>
                (case new_records symbol cs existing_dates rs of
                   None \<Rightarrow> None
                 | Some xs \<Rightarrow> Some (x # xs))))"

text \<open>
  Lines 118 to 152 of \<^verbatim>\<open>get_stock_data\<close>, the merge of the fetched and trimmed frame
  into the store. \<open>Raises\<close>: an exception leaves the block and the table is as before;
  \<open>Saved\<close>: the block ends normally with this table. Both carry the events of the write.
\<close>

datatype merged = Raises "event list" | Saved "stock_row list" "event list"

definition merge_records ::
  "fault \<Rightarrow> stock_row list \<Rightarrow> string \<Rightarrow> stock_row list \<Rightarrow> col list \<Rightarrow> bar list \<Rightarrow> merged" where
  "merge_records f db symbol db_records cs rs =
     (case new_records symbol cs (map (\<lambda>r. date (snd r)) db_records) rs of
        None \<Rightarrow> Raises []
      | Some new \<Rightarrow>
          if new = [] then Saved db []
          else (case bulk_save f db new of
                  (Committed, db2) \<Rightarrow> Saved db2 [Commit (length new)]
                | (IntegrityError, db2) \<Rightarrow> Saved db2 [Rollback, LogWarning]
                | (OtherError, db2) \<Rightarrow> Raises [Rollback, LogError]))"

definition normalize :: "string \<Rightarrow> string" where
  "normalize symbol = strip (upper symbol)"

definition failed :: "nat \<Rightarrow> stock_row list \<Rightarrow> event list \<Rightarrow> outcome" where
  "failed code db evs = \<lparr>result = Inl (HTTPException code), store = db, trace = evs\<rparr>"

definition respond :: "string \<Rightarrow> col list \<Rightarrow> bar list \<Rightarrow> stock_row list \<Rightarrow> event list \<Rightarrow> outcome" where
  "respond symbol cs rs db evs =
     \<lparr>result = Inr \<lparr>resp_symbol = symbol, resp_days = length rs, resp_columns = cs, resp_data = rs\<rparr>,
      store = db, trace = evs\<rparr>"

text \<open>\<^verbatim>\<open>df.tail(days) if len(df) > days else df\<close>.\<close>

definition trim :: "int \<Rightarrow> bar list \<Rightarrow> bar list" where
  "trim days rs = (if days < int (length rs) then tail days rs else rs)"

text \<open>
  The second branch of \<^verbatim>\<open>get_stock_data\<close> (``DB empty or insufficient data''): fetch,
  process, sort, trim to the last \<^verbatim>\<open>days\<close> rows, merge the trimmed rows into the store
  and answer with them. \<open>Fetch\<close> records the call of \<^verbatim>\<open>collector.fetch_stock_data\<close>.
  \<^verbatim>\<open>sort_values("date")\<close> raises \<^verbatim>\<open>KeyError\<close> on a frame without a date column.
\<close>

definition fetch_and_save :: "env \<Rightarrow> stock_row list \<Rightarrow> string \<Rightarrow> int \<Rightarrow> stock_row list \<Rightarrow> outcome" where
  "fetch_and_save e db symbol days db_records =
     (case fetch_stock_data (history e) symbol of
        None \<Rightarrow> failed 404 db [Fetch symbol]
      | Some df0 \<Rightarrow>
          if empty_df df0 then failed 404 db [Fetch symbol]
          else
            (case process_data (Some df0) of
               None \<Rightarrow> failed 500 db [Fetch symbol]
             | Some df1 \<Rightarrow>
                 if \<not> has Date df1 then failed 500 db [Fetch symbol]
                 else
                   let rs = trim days (sort_key date (rows df1))
                   in (case merge_records (write_fault e) db symbol db_records (columns df1) rs of
                         Raises evs \<Rightarrow> failed 500 db (Fetch symbol # evs)
                       | Saved db2 evs \<Rightarrow>
                           respond symbol (columns df1) rs db2 (Fetch symbol # evs))))"

text \<open>
  \<^verbatim>\<open>get_stock_data\<close> (\<^verbatim>\<open>GET /data/{symbol}?days=\<close>). The framework rejects \<^verbatim>\<open>days\<close> outside
  \<^verbatim>\<open>Query(30, ge=1, le=365)\<close> with status 422 before the body runs. Every exception other
  than an \<^verbatim>\<open>HTTPException\<close> becomes status 500. The outcome is the answer, the table
  after the request, and the events in order. The response dates stay day numbers (the
  source formats them as \<^verbatim>\<open>YYYY-MM-DD\<close>).
\<close>

definition get_stock_data :: "env \<Rightarrow> stock_row list \<Rightarrow> string \<Rightarrow> int \<Rightarrow> outcome" where
  "get_stock_data e db symbol0 days =
     (if days < 1 \<or> 365 < days then failed 422 db []
      else if symbol0 = [] then failed 400 db []
      else
        let symbol = normalize symbol0
        in if symbol = [] then failed 400 db []
           else if symbol \<notin> set get_available_companies then failed 404 db []
           else
             let cutoff_date = today e - days;
                 db_records = db_query db symbol cutoff_date
             in if db_records \<noteq> [] \<and> days \<le> int (length db_records)
                then respond symbol all_columns (sort_key date (map snd db_records)) db []
                else fetch_and_save e db symbol days db_records)"

text \<open>\<^verbatim>\<open>get_stock_summary\<close> (\<^verbatim>\<open>GET /summary/{symbol}\<close>): the frame it builds has the
  columns \<^verbatim>\<open>date\<close> and \<^verbatim>\<open>close\<close> only, and all four statistics are taken from \<^verbatim>\<open>close\<close>
  over every stored row of the symbol.\<close>

definition get_stock_summary :: "stock_row list \<Rightarrow> string \<Rightarrow> http_error + string \<times> summary" where
  "get_stock_summary db symbol =
     (let symbol_upper = upper symbol;
          records = db_all db symbol_upper
      in if records = [] then Inl (HTTPException 404)
         else
           let cl = map (\<lambda>r. close (snd r)) records
           in Inr (symbol_upper,
                   \<lparr>high_52w = pd_max cl, low_52w = pd_min cl,
                    avg_close = pd_mean cl, current_close = last cl\<rparr>))"

record insights =
  better_performer :: string
  return_difference :: fl
  correlation_interpretation :: string

record comparison =
  symbol1 :: string
  symbol2 :: string
  correlation :: real
  symbol1_metrics :: "metrics option"
  symbol1_summary :: "summary_stats option"
  symbol2_metrics :: "metrics option"
  symbol2_summary :: "summary_stats option"
  insight :: insights

text \<open>The inner function \<^verbatim>\<open>get_stock_df\<close> of \<^verbatim>\<open>compare_stocks\<close>: the stored rows when
  there are at least 50, otherwise a fetch and the processing pipeline; the flag tells
  whether the collector was called.\<close>

definition get_stock_df :: "env \<Rightarrow> stock_row list \<Rightarrow> string \<Rightarrow> (http_error + frame option) \<times> bool" where
  "get_stock_df e db sym' =
     (let db_data = db_all db sym'
      in if db_data \<noteq> [] \<and> 50 \<le> length db_data
         then (Inr (Some \<lparr>columns = all_columns, rows = map snd db_data\<rparr>), False)
         else (case fetch_stock_data (history e) sym' of
                 None \<Rightarrow> (Inl (HTTPException 404), True)
               | Some df \<Rightarrow>
                   if empty_df df then (Inl (HTTPException 404), True)
                   else (Inr (process_data (Some df)), True)))"

text \<open>\<^verbatim>\<open>metrics.get('total_return_pct', 0)\<close>.\<close>

definition get_total_return_pct :: "metrics option \<Rightarrow> fl" where
  "get_total_return_pct m = (case m of None \<Rightarrow> Fin 0 | Some x \<Rightarrow> total_return_pct x)"

definition round_real :: "real \<Rightarrow> nat \<Rightarrow> real" where
  "round_real x n = of_int (round_half_even (x * 10 ^ n)) / 10 ^ n"

text \<open>The dictionary \<^verbatim>\<open>insights\<close> of the answer of \<^verbatim>\<open>compare_stocks\<close>.\<close>

definition make_insights :: "string \<Rightarrow> string \<Rightarrow> metrics option \<Rightarrow> metrics option \<Rightarrow> real \<Rightarrow> insights" where
  "make_insights symbol1_upper symbol2_upper metrics1 metrics2 corr =
     \<lparr>better_performer =
        (if fgt (get_total_return_pct metrics1) (get_total_return_pct metrics2)
         then symbol1_upper else symbol2_upper),
      return_difference =
        fround (fabs (fsub (get_total_return_pct metrics1) (get_total_return_pct metrics2))) 2,
      correlation_interpretation =
        (if 7 / 10 < corr then ''Strong positive''
         else if 3 / 10 < corr then ''Moderate positive''
         else if - (3 / 10) < corr then ''Weak''
         else ''Negative'')\<rparr>"

text \<open>\<^verbatim>\<open>compare_stocks\<close> (\<^verbatim>\<open>GET /compare\<close>): the answer and the \<open>Fetch\<close> events. It does
  not write to the store.\<close>

definition compare_stocks ::
  "env \<Rightarrow> stock_row list \<Rightarrow> string \<Rightarrow> string \<Rightarrow> (http_error + comparison) \<times> event list" where
  "compare_stocks e db s1 s2 =
     (let symbol1_upper = upper s1; symbol2_upper = upper s2
      in if symbol1_upper \<notin> set get_available_companies then (Inl (HTTPException 404), [])
         else if symbol2_upper \<notin> set get_available_companies then (Inl (HTTPException 404), [])
         else
           (case get_stock_df e db symbol1_upper of
              (Inl err, f1) \<Rightarrow> (Inl err, [Fetch symbol1_upper])
            | (Inr df1_processed, f1) \<Rightarrow>
                let ev1 = (if f1 then [Fetch symbol1_upper] else [])
                in (case get_stock_df e db symbol2_upper of
                      (Inl err, f2) \<Rightarrow> (Inl err, ev1 @ [Fetch symbol2_upper])
                    | (Inr df2_processed, f2) \<Rightarrow>
                        let evs = ev1 @ (if f2 then [Fetch symbol2_upper] else [])
                        in if df1_processed = None \<or> empty_df (the df1_processed)
                           then (Inl (HTTPException 404), evs)
                           else if df2_processed = None \<or> empty_df (the df2_processed)
                           then (Inl (HTTPException 404), evs)
                           else
                             let metrics1 = calculate_performance_metrics df1_processed;
                                 metrics2 = calculate_performance_metrics df2_processed;
                                 corr = calculate_correlation df1_processed df2_processed
                             in (Inr \<lparr>symbol1 = symbol1_upper, symbol2 = symbol2_upper,
                                      correlation = round_real corr 4,
                                      symbol1_metrics = metrics1,
                                      symbol1_summary = get_summary_stats df1_processed,
                                      symbol2_metrics = metrics2,
                                      symbol2_summary = get_summary_stats df2_processed,
                                      insight = make_insights symbol1_upper symbol2_upper
                                                  metrics1 metrics2 corr\<rparr>, evs))))"

section \<open>Example data\<close>

text \<open>A raw bar as the provider delivers it: finite prices and volume, no derived
  column yet.\<close>

definition mk_bar :: "int \<Rightarrow> real \<Rightarrow> real \<Rightarrow> real \<Rightarrow> real \<Rightarrow> real \<Rightarrow> bar" where
  "mk_bar d a h l c v =
     \<lparr>date = d, open' = Fin a, high = Fin h, low = Fin l, close = Fin c, volume = Fin v,
      daily_return = NaN, ma_7 = NaN, volatility_score = NaN\<rparr>"

definition raw_columns :: "col list" where
  "raw_columns = [Date, Open, High, Low, Close, Volume]"

text \<open>Ten bars on the days 1 to 10, and what the pipeline makes of each of them.\<close>

definition ten_bars :: "bar list" where
  "ten_bars = map (\<lambda>d. mk_bar d 100 110 90 105 1000) [1, 2, 3, 4, 5, 6, 7, 8, 9, 10]"

definition ten_frame :: frame where
  "ten_frame = \<lparr>columns = raw_columns, rows = ten_bars\<rparr>"

definition enriched :: "int \<Rightarrow> bar" where
  "enriched d =
     \<lparr>date = d, open' = Fin 100, high = Fin 110, low = Fin 90, close = Fin 105,
      volume = Fin 1000, daily_return = Fin (1 / 20), ma_7 = Fin 105, volatility_score = Fin 0\<rparr>"

text \<open>A provider that knows \<^verbatim>\<open>TCS.NS\<close> only, on day \<open>t\<close>, with the write fault \<open>f\<close>.\<close>

definition tcs_env :: "int \<Rightarrow> fault \<Rightarrow> env" where
  "tcs_env t f =
     \<lparr>today = t,
      history = (\<lambda>s. if s = ''TCS.NS'' then Some ten_frame else None),
      write_fault = f\<rparr>"

text \<open>A store with the bars of two consecutive days.\<close>

definition two_rows :: "stock_row list" where
  "two_rows = [(''TCS'', enriched 9), (''TCS'', enriched 10)]"

text \<open>A bar that opens at 0 and closes at 100.\<close>

definition zero_open_frame :: frame where
  "zero_open_frame = \<lparr>columns = raw_columns, rows = [mk_bar 1 0 100 0 100 1000]\<rparr>"

text \<open>A bar whose close is \<open>+\<infinity>\<close>.\<close>

definition inf_close_frame :: frame where
  "inf_close_frame =
     \<lparr>columns = raw_columns, rows = [(mk_bar 1 100 110 90 100 1000)\<lparr>close := PInf\<rparr>]\<rparr>"

text \<open>Two flat days, the second ten percent above the first.\<close>

definition rising_frame :: frame where
  "rising_frame =
     \<lparr>columns = raw_columns,
      rows = [mk_bar 1 100 100 100 100 1000, mk_bar 2 110 110 110 110 1000]\<rparr>"

text \<open>Two flat days, the second a fifth below the first.\<close>

definition falling_frame :: frame where
  "falling_frame =
     \<lparr>columns = raw_columns,
      rows = [mk_bar 1 50 50 50 50 1000, mk_bar 2 40 40 40 40 1000]\<rparr>"

text \<open>A provider with the rising series for \<^verbatim>\<open>TCS.NS\<close> and the same flat series for
  \<^verbatim>\<open>INFY.NS\<close> and \<^verbatim>\<open>WIPRO.NS\<close>.\<close>

definition cmp_env :: env where
  "cmp_env =
     \<lparr>today = 10,
      history = (\<lambda>s. if s = ''TCS.NS'' then Some rising_frame
                      else if s = ''INFY.NS'' \<or> s = ''WIPRO.NS'' then Some ten_frame
                      else None),
      write_fault = NoFault\<rparr>"

text \<open>A store with one bar whose high, low and close differ.\<close>

definition one_row :: "stock_row list" where
  "one_row = [(''TCS'', mk_bar 1 100 110 90 100 1000)]"

text \<open>What the pipeline makes of the rising series.\<close>

definition rising_processed :: frame where
  "rising_processed =
     \<lparr>columns = all_columns,
      rows = [(mk_bar 1 100 100 100 100 1000)
                \<lparr>daily_return := Fin 0, ma_7 := Fin 100, volatility_score := Fin 0\<rparr>,
              (mk_bar 2 110 110 110 110 1000)
                \<lparr>daily_return := Fin 0, ma_7 := Fin 105, volatility_score := Fin 0\<rparr>]\<rparr>"

text \<open>Two series of closes on the days 1 to 5, both with the mean 100.\<close>

definition close_frame :: "real list \<Rightarrow> frame" where
  "close_frame cs =
     \<lparr>columns = raw_columns,
      rows = map (\<lambda>(d, c). mk_bar d c c c c 1000) (zip [1, 2, 3, 4, 5] cs)\<rparr>"

definition series_a :: frame where
  "series_a = close_frame [95, 100, 101, 101, 103]"

definition series_b :: frame where
  "series_b = close_frame [92, 101, 99, 103, 105]"

text \<open>A series whose only day is day 9, which the rising series does not have.\<close>

definition late_frame :: frame where
  "late_frame = \<lparr>columns = raw_columns, rows = [mk_bar 9 50 50 50 50 1000]\<rparr>"

section \<open>Float and column lemmas\<close>

lemma thresholds:
  "0 < underflow_threshold" "underflow_threshold < 1 / 2 ^ 1000"
  "2 ^ 1010 < overflow_threshold" "0 < overflow_threshold"
  by (simp_all add: underflow_threshold_def overflow_threshold_def)

lemma to_fl_range:
  "underflow_threshold < \<bar>x\<bar> \<Longrightarrow> \<bar>x\<bar> < overflow_threshold \<Longrightarrow> to_fl s x = Fin x"
  by (simp add: to_fl_def)

lemma to_fl_zero [simp]: "to_fl False 0 = Fin 0" "to_fl True 0 = NZero"
  using thresholds(1,4) by (simp_all add: to_fl_def)

lemma to_fl_safe [simp]:
  assumes "1 / 2 ^ 20 \<le> \<bar>x\<bar>" and "\<bar>x\<bar> \<le> 2 ^ 40"
  shows "to_fl s x = Fin x"
proof (rule to_fl_range)
  have "underflow_threshold < 1 / 2 ^ 20" by (simp add: underflow_threshold_def)
  with assms(1) show "underflow_threshold < \<bar>x\<bar>" by linarith
  have "(2::real) ^ 40 < 2 ^ 1010" by simp
  with assms(2) thresholds(3) show "\<bar>x\<bar> < overflow_threshold" by linarith
qed

lemma fadd_Fin [simp]: "fadd (Fin a) (Fin b) = to_fl (a + b < 0) (a + b)"
  by (simp add: fadd_def is_inf_def)

lemma fadd_NZero [simp]:
  "fadd (Fin a) NZero = to_fl (a < 0) a" "fadd NZero (Fin a) = to_fl (a < 0) a"
  by (simp_all add: fadd_def is_inf_def)

lemma fmul_Fin [simp]: "fmul (Fin a) (Fin b) = to_fl ((a < 0) \<noteq> (b < 0)) (a * b)"
  by (simp add: fmul_def is_inf_def)

lemma fdiv_Fin [simp]:
  "fdiv (Fin a) (Fin b) =
     (if b = 0 then (if a = 0 then NaN else if a < 0 then NInf else PInf)
      else to_fl ((a < 0) \<noteq> (b < 0)) (a / b))"
  by (simp add: fdiv_def is_inf_def is_zero_def)

lemma fl_NaN [simp]:
  "fadd NaN y = NaN" "fadd x NaN = NaN" "fmul NaN y = NaN" "fmul x NaN = NaN"
  "fdiv NaN y = NaN" "fdiv x NaN = NaN"
  by (simp_all add: fadd_def fmul_def fdiv_def)

lemma foldl_fadd_pos:
  assumes "0 \<le> a" and "\<forall>c\<in>set cs. 1 / 2 ^ 1000 \<le> c" and "a + sum_list cs \<le> 2 ^ 1010"
  shows "foldl fadd (Fin a) (map Fin cs) = Fin (a + sum_list cs)"
  using assms
proof (induction cs arbitrary: a)
  case Nil
  then show ?case by simp
next
  case (Cons c cs)
  have c: "1 / 2 ^ 1000 \<le> c" using Cons.prems(2) by simp
  then have c0: "0 \<le> c" by (smt (verit) divide_nonneg_nonneg zero_le_power)
  have s: "0 \<le> sum_list cs"
  proof (rule sum_list_nonneg)
    fix x assume "x \<in> set cs"
    with Cons.prems(2) have "1 / 2 ^ 1000 \<le> x" by simp
    then show "0 \<le> x" by (smt (verit) divide_nonneg_nonneg zero_le_power)
  qed
  have lo: "underflow_threshold < \<bar>a + c\<bar>" using thresholds(2) c Cons.prems(1) by linarith
  have hi: "\<bar>a + c\<bar> < overflow_threshold"
    using thresholds(3) Cons.prems(1,3) c0 s by simp
  have step: "fadd (Fin a) (Fin c) = Fin (a + c)"
    by (simp only: fadd_Fin to_fl_range[OF lo hi])
  have "foldl fadd (Fin (a + c)) (map Fin cs) = Fin (a + c + sum_list cs)"
  proof (rule Cons.IH)
    show "0 \<le> a + c" using Cons.prems(1) c0 by simp
    show "\<forall>c\<in>set cs. 1 / 2 ^ 1000 \<le> c" using Cons.prems(2) by simp
    show "a + c + sum_list cs \<le> 2 ^ 1010" using Cons.prems(3) by (simp add: add.assoc)
  qed
  then show ?case by (simp only: list.map foldl.simps step sum_list.Cons add.assoc)
qed

lemma valid_Fin: "valid (map Fin cs) = map Fin cs"
  by (induction cs) (simp_all add: valid_def isna_def)

lemma sum_list_bounds:
  fixes cs :: "real list"
  assumes "\<forall>c\<in>set cs. l \<le> c \<and> c \<le> h"
  shows "real (length cs) * l \<le> sum_list cs \<and> sum_list cs \<le> real (length cs) * h"
  using assms by (induction cs) (auto simp: algebra_simps)

lemma mean_bounds:
  fixes cs :: "real list"
  assumes "cs \<noteq> []" and "\<forall>c\<in>set cs. l \<le> c \<and> c \<le> h"
  shows "l \<le> sum_list cs / real (length cs) \<and> sum_list cs / real (length cs) \<le> h"
proof -
  have n: "0 < real (length cs)" using assms(1) by simp
  from sum_list_bounds[OF assms(2)] n show ?thesis
    by (simp add: pos_le_divide_eq pos_divide_le_eq mult.commute)
qed

text \<open>The mean of at most seven prices between \<open>2\<^sup>-\<^sup>1\<^sup>0\<^sup>0\<^sup>0\<close> and \<open>2\<^sup>1\<^sup>0\<^sup>0\<^sup>0\<close>: no sum overflows
  and the quotient does not underflow.\<close>

lemma pd_mean_prices:
  assumes "cs \<noteq> []" and "length cs \<le> 7" and "\<forall>c\<in>set cs. 1 / 2 ^ 1000 \<le> c \<and> c \<le> 2 ^ 1000"
  shows "pd_mean (map Fin cs) = Fin (sum_list cs / real (length cs))"
proof -
  define l :: real where "l = 1 / 2 ^ 1000"
  define h :: real where "h = 2 ^ 1000"
  let ?n = "real (length cs)"
  have r: "\<forall>c\<in>set cs. l \<le> c \<and> c \<le> h" using assms(3) by (simp add: l_def h_def)
  have l0: "0 < l" "underflow_threshold < l" using thresholds(2) by (simp_all add: l_def)
  have h0: "7 * h \<le> 2 ^ 1010" by (simp add: h_def)
  have n: "1 \<le> ?n" "?n \<le> 7" using assms(1,2) by (simp_all add: Suc_leI)
  from sum_list_bounds[OF r] have b: "?n * l \<le> sum_list cs" "sum_list cs \<le> ?n * h" by simp_all
  have "0 \<le> h" by (simp add: h_def)
  then have "?n * h \<le> 7 * h" using n(2) by (simp add: mult_right_mono)
  with b(2) h0 have up: "sum_list cs \<le> 2 ^ 1010" by linarith
  have lo1: "\<forall>c\<in>set cs. 1 / 2 ^ 1000 \<le> c" using assms(3) by simp
  have sum: "fsum (map Fin cs) = Fin (sum_list cs)"
    unfolding fsum_def using foldl_fadd_pos[of 0 cs] lo1 up by simp
  from mean_bounds[OF assms(1) r]
  have m: "l \<le> sum_list cs / ?n" "sum_list cs / ?n \<le> h" by simp_all
  have "h \<le> 7 * h" using \<open>0 \<le> h\<close> by simp
  with m(2) h0 thresholds(3) l0(1) m(1)
  have hi: "\<bar>sum_list cs / ?n\<bar> < overflow_threshold" by linarith
  from m(1) l0 have lo: "underflow_threshold < \<bar>sum_list cs / ?n\<bar>" by linarith
  have nz: "?n \<noteq> 0" using n(1) by linarith
  have "fdiv (Fin (sum_list cs)) (Fin ?n) = Fin (sum_list cs / ?n)"
    unfolding fdiv_Fin using nz to_fl_range[OF lo hi] by simp
  then show ?thesis
    using assms(1) by (simp add: pd_mean_def valid_Fin sum Let_def)
qed

lemma prep_values_Fin: "prep_values (map Fin cs) = map Fin cs"
  by (simp add: prep_values_def is_inf_def)

lemma take_prep_values: "take n (prep_values xs) = prep_values (take n xs)"
  by (simp add: prep_values_def take_map)

lemma length_assign: "length (assign c vs rs) = length rs"
  by (simp add: assign_def)

lemma nth_assign: "i < length rs \<Longrightarrow> assign c vs rs ! i = set_cell c (vs ! i) (rs ! i)"
  by (simp add: assign_def)

lemma length_rolling: "length (rolling w agg xs) = length xs"
  by (simp add: rolling_def)

lemma nth_rolling:
  "i < length xs \<Longrightarrow> rolling w agg xs ! i = agg (window_at w (prep_values xs) i)"
  by (simp add: rolling_def)

lemma window_at_head: "i < w \<Longrightarrow> window_at w xs i = take (Suc i) xs"
  by (simp add: window_at_def)

lemma ma_7_nth:
  assumes "has Close df" "i < length (rows df)"
  shows "ma_7 (rows (calculate_moving_average df w) ! i)
         = pd_mean (window_at w (prep_values (map close (rows df))) i)"
  using assms by (simp add: calculate_moving_average_def nth_assign nth_rolling)

lemma fgt_irrefl: "\<not> fgt x x"
  by (cases x) simp_all

section \<open>The enricher\<close>


lemma rising_has: "has Close rising_frame" "rows rising_frame \<noteq> []"
  by (simp_all add: has_def rising_frame_def raw_columns_def)



text \<open>
  C6 fails on the code. A bar with open 0 and close 100: the quotient \<open>(100 - 0) / 0\<close> is
  \<open>+\<infinity>\<close>, which \<^verbatim>\<open>fillna(0)\<close> leaves in place because it replaces NaN only; the daily return
  of the bar is \<open>+\<infinity>\<close> and not 0.
\<close>

theorem daily_return_zero_open:
  "has Open zero_open_frame \<and> has Close zero_open_frame
   \<and> open' (rows zero_open_frame ! 0) = Fin 0
   \<and> close (rows zero_open_frame ! 0) = Fin 100
   \<and> daily_return (rows (calculate_daily_return zero_open_frame) ! 0) = PInf"
  by (simp add: calculate_daily_return_def zero_open_frame_def raw_columns_def has_def mk_bar_def
        fsub_def fadd_def is_inf_def fillna0_def isna_def)

section \<open>The merge into the store\<close>

lemma key_stock_data: "key (stock_data s cs r) = (s, date r)"
  by (simp add: key_def stock_data_def)

lemma to_record_Some: "to_record s cs r = Some x \<Longrightarrow> x = stock_data s cs r"
  by (simp add: to_record_def split: if_splits)

lemma new_records_keys:
  "new_records s cs ex rs = Some new \<Longrightarrow>
   new = map (stock_data s cs) (filter (\<lambda>r. date r \<notin> set ex) rs)"
proof (induction rs arbitrary: new)
  case Nil
  then show ?case by simp
next
  case (Cons r rs)
  show ?case
  proof (cases "date r \<in> set ex")
    case True
    with Cons show ?thesis by simp
  next
    case False
    with Cons.prems obtain x xs where
      x: "to_record s cs r = Some x" and xs: "new_records s cs ex rs = Some xs" and n: "new = x # xs"
      by (auto split: option.splits)
    from Cons.IH[OF xs] to_record_Some[OF x] n False show ?thesis by simp
  qed
qed

lemma new_records_mono:
  "new_records s cs ex rs = Some new \<Longrightarrow> set ex \<subseteq> set ex2 \<Longrightarrow>
   \<exists>new2. new_records s cs ex2 rs = Some new2"
proof (induction rs arbitrary: new)
  case Nil
  then show ?case by simp
next
  case (Cons r rs)
  show ?case
  proof (cases "date r \<in> set ex")
    case True
    with Cons show ?thesis by auto
  next
    case False
    with Cons.prems obtain x xs where
      x: "to_record s cs r = Some x" and xs: "new_records s cs ex rs = Some xs"
      by (auto split: option.splits)
    from Cons.IH[OF xs Cons.prems(2)] obtain new2 where "new_records s cs ex2 rs = Some new2" ..
    with x show ?thesis by simp
  qed
qed

lemma new_records_all:
  assumes "Open \<in> set cs" "High \<in> set cs" "Low \<in> set cs" "Close \<in> set cs" "Volume \<in> set cs"
      and "\<forall>r\<in>set rs. volume r \<noteq> PInf \<and> volume r \<noteq> NInf"
  shows "new_records s cs ex rs = Some (map (stock_data s cs) (filter (\<lambda>r. date r \<notin> set ex) rs))"
  using assms(6) by (induction rs) (simp_all add: to_record_def assms(1-5))

lemma set_dates_db_query:
  "set (map (\<lambda>r. date (snd r)) (db_query db s c)) = {d. (s, d) \<in> key ` set db \<and> c \<le> d}"
  by (auto simp: db_query_def key_def image_iff)

lemma merge_records_cases:
  obtains (Raises) evs where "merge_records f db s recs cs rs = Raises evs"
  | (Nothing) "new_records s cs (map (\<lambda>r. date (snd r)) recs) rs = Some []"
      "merge_records f db s recs cs rs = Saved db []"
  | (Rejected) new where "new_records s cs (map (\<lambda>r. date (snd r)) recs) rs = Some new" "new \<noteq> []"
      "f = IntegrityFault \<or> (f = NoFault \<and> violates_unique db new)"
      "merge_records f db s recs cs rs = Saved db [Rollback, LogWarning]"
  | (Written) new where "new_records s cs (map (\<lambda>r. date (snd r)) recs) rs = Some new" "new \<noteq> []"
      "f = NoFault" "\<not> violates_unique db new"
      "merge_records f db s recs cs rs = Saved (db @ new) [Commit (length new)]"
proof (cases "new_records s cs (map (\<lambda>r. date (snd r)) recs) rs")
  case None
  then have "merge_records f db s recs cs rs = Raises []" by (simp add: merge_records_def)
  then show ?thesis by (rule Raises)
next
  case (Some new)
  show ?thesis
  proof (cases "new = []")
    case True
    with Some show ?thesis by (intro Nothing) (simp_all add: merge_records_def)
  next
    case False
    show ?thesis
    proof (cases f)
      case OtherFault
      with Some False have "merge_records f db s recs cs rs = Raises [Rollback, LogError]"
        by (simp add: merge_records_def bulk_save_def)
      then show ?thesis by (rule Raises)
    next
      case IntegrityFault
      with Some False show ?thesis
        by (intro Rejected[of new]) (simp_all add: merge_records_def bulk_save_def)
    next
      case NoFault
      show ?thesis
      proof (cases "violates_unique db new")
        case True
        with Some False NoFault show ?thesis
          by (intro Rejected[of new]) (simp_all add: merge_records_def bulk_save_def)
      next
        case v: False
        with Some False NoFault show ?thesis
          by (intro Written[of new]) (simp_all add: merge_records_def bulk_save_def)
      qed
    qed
  qed
qed

lemma merge_records_store:
  assumes "merge_records f db s recs cs rs = Saved db1 evs"
  shows "\<exists>new. db1 = db @ new \<and> (\<forall>x\<in>set new. key x \<notin> key ` set db)"
proof (cases f db s recs cs rs rule: merge_records_cases)
  case (Raises evs)
  with assms show ?thesis by simp
next
  case Nothing
  with assms show ?thesis by simp
next
  case (Rejected new)
  with assms show ?thesis by simp
next
  case (Written new)
  from Written(4) have "\<forall>x\<in>set new. key x \<notin> key ` set db"
    by (auto simp: violates_unique_def list_ex_iff)
  with Written(5) assms show ?thesis by simp
qed

text \<open>A second merge of the same rows, against the table the first one left, changes nothing.\<close>

lemma merge_records_again:
  assumes "merge_records f db s (db_query db s c) cs rs = Saved db1 evs"
  shows "\<exists>evs2. merge_records f db1 s (db_query db1 s c) cs rs = Saved db1 evs2"
proof (cases f db s "db_query db s c" cs rs rule: merge_records_cases)
  case (Raises evs)
  with assms show ?thesis by simp
next
  case Nothing
  with assms show ?thesis by simp
next
  case (Rejected new)
  with assms show ?thesis by simp
next
  case (Written new)
  with assms have db1: "db1 = db @ new" by simp
  let ?ex = "map (\<lambda>r. date (snd r)) (db_query db s c)"
  let ?ex1 = "map (\<lambda>r. date (snd r)) (db_query db1 s c)"
  have sub: "set ?ex \<subseteq> set ?ex1"
    unfolding set_dates_db_query db1 by auto
  from new_records_mono[OF Written(1) sub] obtain new2
    where n2: "new_records s cs ?ex1 rs = Some new2" ..
  have newk: "new = map (stock_data s cs) (filter (\<lambda>r. date r \<notin> set ?ex) rs)"
    by (rule new_records_keys[OF Written(1)])
  have new2k: "new2 = map (stock_data s cs) (filter (\<lambda>r. date r \<notin> set ?ex1) rs)"
    by (rule new_records_keys[OF n2])
  have "set new2 \<subseteq> set new"
    unfolding newk new2k using sub by auto
  then have inc: "\<forall>x\<in>set new2. key x \<in> key ` set db1"
    unfolding db1 by auto
  show ?thesis
  proof (cases "new2 = []")
    case True
    with n2 show ?thesis by (simp add: merge_records_def)
  next
    case False
    then obtain x where "x \<in> set new2" by (cases new2) auto
    with inc have "key x \<in> set (map key new2)" and "key x \<in> set (map key db1)"
      by auto
    then have "list_ex (\<lambda>k. k \<in> set (map key db1)) (map key new2)"
      unfolding list_ex_iff by (rule bexI[rotated])
    then have "violates_unique db1 new2"
      by (simp add: violates_unique_def)
    with n2 False Written(3) show ?thesis
      by (simp add: merge_records_def bulk_save_def)
  qed
qed

section \<open>The series request\<close>

lemma empty_not_available: "[] \<notin> set get_available_companies"
  by (simp add: get_available_companies_def INDIAN_STOCKS_def)

lemma length_db_query:
  "length (db_query db s c) = length (filter (\<lambda>r. fst r = s \<and> c \<le> date (snd r)) db)"
  by (simp add: db_query_def)

lemma mset_db_query:
  "mset (db_query db s c) = mset (filter (\<lambda>r. fst r = s \<and> c \<le> date (snd r)) db)"
  by (simp add: db_query_def)

lemma fetch_in_trace: "Fetch s \<in> set (trace (fetch_and_save e db s days recs))"
  by (simp add: fetch_and_save_def failed_def respond_def Let_def split: option.splits merged.splits)

lemma get_stock_data_known:
  assumes "normalize symbol \<in> set get_available_companies"
      and "1 \<le> days" and "days \<le> 365"
  shows "get_stock_data e db symbol days =
     (let recs = db_query db (normalize symbol) (today e - days)
      in if days \<le> int (length recs)
         then respond (normalize symbol) all_columns (sort_key date (map snd recs)) db []
         else fetch_and_save e db (normalize symbol) days recs)"
proof -
  have ne2: "normalize symbol \<noteq> []" using assms(1) empty_not_available by auto
  then have ne: "symbol \<noteq> []"
    by (auto simp: normalize_def strip_def upper_def)
  have "days \<le> int (length xs) \<Longrightarrow> xs \<noteq> []" for xs :: "stock_row list"
    using assms(2) by auto
  then show ?thesis
    unfolding get_stock_data_def Let_def
    using assms ne ne2 by auto
qed


lemma tail_is_drop:
  "tail n xs = drop (if 0 \<le> n then length xs - nat n else nat (- n)) xs"
  by (simp add: tail_def)

lemma sorted_tail: "sorted (map f xs) \<Longrightarrow> sorted (map f (tail n xs))"
  unfolding tail_is_drop drop_map[symmetric] by (rule sorted_wrt_drop)

lemma sorted_trim: "sorted (map f xs) \<Longrightarrow> sorted (map f (trim days xs))"
  by (simp add: trim_def sorted_tail)

lemma length_trim: "1 \<le> days \<Longrightarrow> int (length (trim days xs)) \<le> days"
  by (auto simp: trim_def tail_def)

lemma fetch_and_save_Inr:
  assumes "result (fetch_and_save e db s days recs) = Inr resp"
  obtains df0 df1 db2 evs where
    "fetch_stock_data (history e) s = Some df0" and "\<not> empty_df df0"
    and "process_data (Some df0) = Some df1" and "has Date df1"
    and "merge_records (write_fault e) db s recs (columns df1)
           (trim days (sort_key date (rows df1))) = Saved db2 evs"
    and "fetch_and_save e db s days recs
           = respond s (columns df1) (trim days (sort_key date (rows df1))) db2 (Fetch s # evs)"
proof (cases "fetch_stock_data (history e) s")
  case None
  with assms show ?thesis by (simp add: fetch_and_save_def failed_def)
next
  case (Some df0)
  note f = this
  show ?thesis
  proof (cases "empty_df df0")
    case True
    with assms f show ?thesis by (simp add: fetch_and_save_def failed_def)
  next
    case False
    note ne = this
    show ?thesis
    proof (cases "process_data (Some df0)")
      case None
      with assms f ne show ?thesis by (simp add: fetch_and_save_def failed_def)
    next
      case (Some df1)
      note p = this
      show ?thesis
      proof (cases "has Date df1")
        case False
        with assms f ne p show ?thesis by (simp add: fetch_and_save_def failed_def)
      next
        case True
        note hd = this
        show ?thesis
        proof (cases "merge_records (write_fault e) db s recs (columns df1)
                        (trim days (sort_key date (rows df1)))")
          case (Raises evs)
          with assms f ne p hd show ?thesis
            by (simp add: fetch_and_save_def failed_def Let_def)
        next
          case (Saved db2 evs)
          with f ne p hd have "fetch_and_save e db s days recs
              = respond s (columns df1) (trim days (sort_key date (rows df1))) db2 (Fetch s # evs)"
            by (simp add: fetch_and_save_def Let_def)
          with that f ne p hd Saved show ?thesis by blast
        qed
      qed
    qed
  qed
qed

lemma fetch_and_save_ok:
  assumes "result (fetch_and_save e db s days recs) = Inr resp"
  shows "sorted (map date (resp_data resp))"
    and "1 \<le> days \<Longrightarrow> int (length (resp_data resp)) \<le> days"
proof -
  from assms obtain df0 df1 db2 evs where
    "fetch_stock_data (history e) s = Some df0" and "\<not> empty_df df0"
    and "process_data (Some df0) = Some df1" and "has Date df1"
    and "merge_records (write_fault e) db s recs (columns df1)
           (trim days (sort_key date (rows df1))) = Saved db2 evs"
    and "fetch_and_save e db s days recs
           = respond s (columns df1) (trim days (sort_key date (rows df1))) db2 (Fetch s # evs)"
    by (rule fetch_and_save_Inr)
  with assms have r: "resp_data resp = trim days (sort_key date (rows df1))"
    by (auto simp: respond_def)
  show "sorted (map date (resp_data resp))"
    unfolding r by (rule sorted_trim) (rule sorted_sort_key)
  show "1 \<le> days \<Longrightarrow> int (length (resp_data resp)) \<le> days"
    unfolding r by (rule length_trim)
qed

lemma fetch_nonempty: "fetch_stock_data h s = Some df \<Longrightarrow> \<not> empty_df df"
  by (auto simp: fetch_stock_data_def Let_def split: option.splits if_splits)

lemma fetch_and_save_eval:
  assumes "fetch_stock_data (history e) s = Some df0" and "process_data (Some df0) = Some df1"
      and "has Date df1"
  shows "fetch_and_save e db s days recs =
     (case merge_records (write_fault e) db s recs (columns df1)
             (trim days (sort_key date (rows df1))) of
        Raises evs \<Rightarrow> failed 500 db (Fetch s # evs)
      | Saved db2 evs \<Rightarrow>
          respond s (columns df1) (trim days (sort_key date (rows df1))) db2 (Fetch s # evs))"
  using assms fetch_nonempty[OF assms(1)] by (simp add: fetch_and_save_def Let_def)

lemma fetch_and_save_cases:
  obtains (Failed) c evs where "fetch_and_save e db s days recs = failed c db evs"
  | (Merged) df0 df1 db2 evs where
      "fetch_stock_data (history e) s = Some df0" and "process_data (Some df0) = Some df1"
      and "has Date df1"
      and "merge_records (write_fault e) db s recs (columns df1)
             (trim days (sort_key date (rows df1))) = Saved db2 evs"
      and "fetch_and_save e db s days recs
             = respond s (columns df1) (trim days (sort_key date (rows df1))) db2 (Fetch s # evs)"
proof (cases "fetch_stock_data (history e) s")
  case None
  then have "fetch_and_save e db s days recs = failed 404 db [Fetch s]"
    by (simp add: fetch_and_save_def)
  then show ?thesis by (rule Failed)
next
  case (Some df0)
  note f = this
  note ne = fetch_nonempty[OF f]
  show ?thesis
  proof (cases "process_data (Some df0)")
    case None
    with f ne have "fetch_and_save e db s days recs = failed 500 db [Fetch s]"
      by (simp add: fetch_and_save_def)
    then show ?thesis by (rule Failed)
  next
    case (Some df1)
    note p = this
    show ?thesis
    proof (cases "has Date df1")
      case False
      with f ne p have "fetch_and_save e db s days recs = failed 500 db [Fetch s]"
        by (simp add: fetch_and_save_def)
      then show ?thesis by (rule Failed)
    next
      case True
      note ev = fetch_and_save_eval[OF f p True, of db days recs]
      show ?thesis
      proof (cases "merge_records (write_fault e) db s recs (columns df1)
                      (trim days (sort_key date (rows df1)))")
        case (Raises evs)
        with ev have "fetch_and_save e db s days recs = failed 500 db (Fetch s # evs)" by simp
        then show ?thesis by (rule Failed)
      next
        case (Saved db2 evs)
        with ev have "fetch_and_save e db s days recs
            = respond s (columns df1) (trim days (sort_key date (rows df1))) db2 (Fetch s # evs)"
          by simp
        with f p True Saved show ?thesis by (rule Merged)
      qed
    qed
  qed
qed

lemma store_failed [simp]: "store (failed c db evs) = db"
  by (simp add: failed_def)

lemma store_respond [simp]: "store (respond s cs rs db evs) = db"
  by (simp add: respond_def)

lemma get_stock_data_unknown:
  assumes "\<not> (normalize symbol \<in> set get_available_companies \<and> 1 \<le> days \<and> days \<le> 365)"
  shows "\<exists>c. get_stock_data e db symbol days = failed c db []"
  using assms unfolding get_stock_data_def Let_def by auto

lemma get_stock_data_ok_cases:
  assumes "result (get_stock_data e db symbol days) = Inr resp"
  shows "normalize symbol \<in> set get_available_companies \<and> 1 \<le> days \<and> days \<le> 365"
proof -
  have "\<not> (days < 1 \<or> 365 < days)"
    using assms by (auto simp: get_stock_data_def failed_def)
  moreover have "normalize symbol \<in> set get_available_companies"
  proof (rule ccontr)
    assume "normalize symbol \<notin> set get_available_companies"
    then have "\<exists>c. get_stock_data e db symbol days = failed c db []"
      unfolding get_stock_data_def Let_def by auto
    with assms show False by (auto simp: failed_def)
  qed
  ultimately show ?thesis by auto
qed

lemma distinct_dates_trim:
  assumes "distinct (map date rs)"
  shows "distinct (map date (trim days (sort_key date rs)))"
proof -
  have "mset (map date (sort_key date rs)) = mset (map date rs)" by simp
  then have "distinct (map date (sort_key date rs))"
    using assms by (metis mset_eq_imp_distinct_iff)
  then show ?thesis
    by (simp add: trim_def tail_is_drop drop_map[symmetric] del: drop_map)
qed

lemma length_trim_eq: "1 \<le> days \<Longrightarrow> int (length (trim days rs)) = min days (int (length rs))"
  by (auto simp: trim_def tail_def)

subsection \<open>The example series through the pipeline\<close>

lemma tcs_known: "normalize ''TCS'' = ''TCS''" "''TCS'' \<in> set get_available_companies"
  by (simp_all add: normalize_def strip_def upper_def upper_char_def is_space_def
        get_available_companies_def INDIAN_STOCKS_def)

lemma not_empty_ten: "\<not> empty_df ten_frame"
  by (simp add: empty_df_def ten_frame_def ten_bars_def raw_columns_def)

lemma fetch_tcs: "fetch_stock_data (history (tcs_env t f)) ''TCS'' = Some ten_frame"
  by (simp add: fetch_stock_data_def tcs_env_def INDIAN_STOCKS_def upper_def upper_char_def not_empty_ten)

lemma clean_ten: "clean_data (Some ten_frame) = Some ten_frame"
  by (simp add: clean_data_def empty_df_def ten_frame_def ten_bars_def raw_columns_def all_na_def
        price_columns_def map_column_def assign_def ffill_def bfill_def isna_def mk_bar_def Let_def)

lemma daily_return_ten:
  "calculate_daily_return ten_frame
   = \<lparr>columns = raw_columns @ [Daily_return],
      rows = map (\<lambda>r. r\<lparr>daily_return := Fin (1 / 20)\<rparr>) ten_bars\<rparr>"
  by (simp add: calculate_daily_return_def has_def add_col_def ten_frame_def raw_columns_def
        ten_bars_def mk_bar_def fsub_def fillna0_def isna_def)

lemma moving_average_ten:
  "calculate_moving_average
     \<lparr>columns = raw_columns @ [Daily_return],
      rows = map (\<lambda>r. r\<lparr>daily_return := Fin (1 / 20)\<rparr>) ten_bars\<rparr> 7
   = \<lparr>columns = raw_columns @ [Daily_return, Ma_7],
      rows = map (\<lambda>r. r\<lparr>daily_return := Fin (1 / 20), ma_7 := Fin 105\<rparr>) ten_bars\<rparr>"
  by (simp add: calculate_moving_average_def has_def add_col_def raw_columns_def ten_bars_def
        mk_bar_def assign_def rolling_def window_at_def prep_values_def is_inf_def pd_mean_def
        valid_def isna_def fsum_def Let_def)

lemma volatility_ten:
  "calculate_volatility_score
     \<lparr>columns = raw_columns @ [Daily_return, Ma_7],
      rows = map (\<lambda>r. r\<lparr>daily_return := Fin (1 / 20), ma_7 := Fin 105\<rparr>) ten_bars\<rparr> 30
   = \<lparr>columns = all_columns, rows = [enriched 1, enriched 2, enriched 3, enriched 4, enriched 5, enriched 6, enriched 7,
             enriched 8, enriched 9, enriched 10]\<rparr>"
  by (simp add: calculate_volatility_score_def has_def add_col_def raw_columns_def all_columns_def
        ten_bars_def mk_bar_def enriched_def assign_def rolling_def window_at_def prep_values_def
        is_inf_def pd_std_def pd_mean_def valid_def isna_def fsum_def fsub_def fillna0_def Let_def)

lemma process_ten:
  "process_data (Some ten_frame)
   = Some \<lparr>columns = all_columns, rows = [enriched 1, enriched 2, enriched 3, enriched 4, enriched 5, enriched 6, enriched 7,
             enriched 8, enriched 9, enriched 10]\<rparr>"
  by (simp add: process_data_def not_empty_ten clean_ten daily_return_ten moving_average_ten
        volatility_ten)

lemma query_two:
  "db_query two_rows ''TCS'' c = filter (\<lambda>r. c \<le> date (snd r)) [(''TCS'', enriched 10), (''TCS'', enriched 9)]"
  by (simp add: db_query_def two_rows_def enriched_def)

lemma hit_two:
  "get_stock_data (tcs_env 10 NoFault) two_rows ''TCS'' 1
   = respond ''TCS'' all_columns [enriched 9, enriched 10] two_rows []"
  by (simp add: get_stock_data_known tcs_known query_two tcs_env_def enriched_def Let_def)

lemma date_enriched: "date (enriched d) = d"
  by (simp add: enriched_def)

lemma trim_ten:
  "trim 5 (sort_key date [enriched 1, enriched 2, enriched 3, enriched 4, enriched 5, enriched 6,
                          enriched 7, enriched 8, enriched 9, enriched 10])
   = [enriched 6, enriched 7, enriched 8, enriched 9, enriched 10]"
  by (simp add: trim_def tail_def date_enriched)

lemma stock_data_enriched: "stock_data s all_columns (enriched d) = (s, enriched d)"
  by (simp add: stock_data_def all_columns_def enriched_def py_int_def)

lemma to_record_enriched: "to_record s all_columns (enriched d) = Some (s, enriched d)"
  by (simp add: to_record_def stock_data_enriched) (simp add: all_columns_def enriched_def)

lemma has_date_all: "has Date \<lparr>columns = all_columns, rows = rs\<rparr>"
  by (simp add: has_def all_columns_def)

lemma get_tcs:
  assumes "1 \<le> days" and "days \<le> 365"
  shows "get_stock_data e db ''TCS'' days =
     (if days \<le> int (length (db_query db ''TCS'' (today e - days)))
      then respond ''TCS'' all_columns
             (sort_key date (map snd (db_query db ''TCS'' (today e - days)))) db []
      else fetch_and_save e db ''TCS'' days (db_query db ''TCS'' (today e - days)))"
  using get_stock_data_known[of "''TCS''" days e db] assms
  by (simp only: tcs_known Let_def)

lemma fetch_and_save_tcs:
  "fetch_and_save (tcs_env t f) db ''TCS'' 5 recs =
     (case merge_records f db ''TCS'' recs all_columns
             [enriched 6, enriched 7, enriched 8, enriched 9, enriched 10] of
        Raises evs \<Rightarrow> failed 500 db (Fetch ''TCS'' # evs)
      | Saved db2 evs \<Rightarrow>
          respond ''TCS'' all_columns [enriched 6, enriched 7, enriched 8, enriched 9, enriched 10]
            db2 (Fetch ''TCS'' # evs))"
proof -
  have w: "write_fault (tcs_env t f) = f" by (simp add: tcs_env_def)
  show ?thesis
    using fetch_and_save_eval[OF fetch_tcs process_ten has_date_all, of t f db 5 recs]
    by (simp only: frame.simps trim_ten w)
qed

lemma new_records_five:
  "new_records ''TCS'' all_columns [] [enriched 6, enriched 7, enriched 8, enriched 9, enriched 10]
   = Some [(''TCS'', enriched 6), (''TCS'', enriched 7), (''TCS'', enriched 8),
           (''TCS'', enriched 9), (''TCS'', enriched 10)]"
  by (simp add: to_record_enriched)

lemma first_request:
  "get_stock_data (tcs_env t NoFault) [] ''TCS'' 5
   = respond ''TCS'' all_columns [enriched 6, enriched 7, enriched 8, enriched 9, enriched 10]
       [(''TCS'', enriched 6), (''TCS'', enriched 7), (''TCS'', enriched 8),
        (''TCS'', enriched 9), (''TCS'', enriched 10)]
       [Fetch ''TCS'', Commit 5]"
proof -
  have q: "db_query [] ''TCS'' c = []" for c by (simp add: db_query_def)
  have m: "merge_records NoFault [] ''TCS'' [] all_columns
             [enriched 6, enriched 7, enriched 8, enriched 9, enriched 10]
           = Saved [(''TCS'', enriched 6), (''TCS'', enriched 7), (''TCS'', enriched 8),
                    (''TCS'', enriched 9), (''TCS'', enriched 10)] [Commit 5]"
    unfolding merge_records_def list.map new_records_five
    by (simp add: bulk_save_def violates_unique_def key_def date_enriched)
  show ?thesis
    by (simp add: get_tcs q fetch_and_save_tcs m)
qed

lemma failing_request:
  "get_stock_data (tcs_env t OtherFault) [] ''TCS'' 5 = failed 500 [] [Fetch ''TCS'', Rollback, LogError]"
proof -
  have q: "db_query [] ''TCS'' c = []" for c by (simp add: db_query_def)
  have m: "merge_records OtherFault [] ''TCS'' [] all_columns
             [enriched 6, enriched 7, enriched 8, enriched 9, enriched 10]
           = Raises [Rollback, LogError]"
    unfolding merge_records_def list.map new_records_five
    by (simp add: bulk_save_def)
  show ?thesis
    by (simp add: get_tcs q fetch_and_save_tcs m)
qed

lemma first_request_general:
  assumes "\<forall>r\<in>set db. fst r \<noteq> ''TCS''"
  shows "get_stock_data (tcs_env t NoFault) db ''TCS'' 5
   = respond ''TCS'' all_columns [enriched 6, enriched 7, enriched 8, enriched 9, enriched 10]
       (db @ [(''TCS'', enriched 6), (''TCS'', enriched 7), (''TCS'', enriched 8),
              (''TCS'', enriched 9), (''TCS'', enriched 10)])
       [Fetch ''TCS'', Commit 5]"
proof -
  have q: "db_query db ''TCS'' c = []" for c
    using assms by (auto simp: db_query_def filter_empty_conv)
  have v: "\<not> violates_unique db [(''TCS'', enriched 6), (''TCS'', enriched 7), (''TCS'', enriched 8),
                                  (''TCS'', enriched 9), (''TCS'', enriched 10)]"
    using assms by (auto simp: violates_unique_def key_def date_enriched)
  have m: "merge_records NoFault db ''TCS'' [] all_columns
             [enriched 6, enriched 7, enriched 8, enriched 9, enriched 10]
           = Saved (db @ [(''TCS'', enriched 6), (''TCS'', enriched 7), (''TCS'', enriched 8),
                          (''TCS'', enriched 9), (''TCS'', enriched 10)]) [Commit 5]"
    unfolding merge_records_def list.map new_records_five
    using v by (simp add: bulk_save_def)
  show ?thesis
    by (simp add: get_tcs q fetch_and_save_tcs m)
qed

subsection \<open>Sufficiency of the stored rows\<close>

text \<open>
  C1. For a request with a known ticker and \<open>1 \<le> days \<le> 365\<close>: when the store holds at
  least \<open>days\<close> rows of the ticker dated \<open>today - days\<close> or later, the answer is exactly
  those rows in ascending date order, the collector is not called and the store is
  unchanged; when it holds fewer, the collector is called.
\<close>

theorem sufficiency:
  assumes "normalize symbol \<in> set get_available_companies"
      and "1 \<le> days" and "days \<le> 365"
  shows "(days \<le> int (length (filter (\<lambda>r. fst r = normalize symbol \<and> today e - days \<le> date (snd r)) db))
            \<longrightarrow> (\<exists>resp. result (get_stock_data e db symbol days) = Inr resp
                    \<and> sorted (map date (resp_data resp))
                    \<and> mset (resp_data resp)
                        = mset (map snd (filter (\<lambda>r. fst r = normalize symbol
                                                      \<and> today e - days \<le> date (snd r)) db)))
                \<and> trace (get_stock_data e db symbol days) = []
                \<and> store (get_stock_data e db symbol days) = db)
       \<and> (int (length (filter (\<lambda>r. fst r = normalize symbol \<and> today e - days \<le> date (snd r)) db)) < days
            \<longrightarrow> Fetch (normalize symbol) \<in> set (trace (get_stock_data e db symbol days)))"
proof -
  let ?s = "normalize symbol"
  let ?q = "db_query db ?s (today e - days)"
  let ?stored = "filter (\<lambda>r. fst r = ?s \<and> today e - days \<le> date (snd r)) db"
  have len: "length ?q = length ?stored" by (rule length_db_query)
  have ms: "mset (map snd ?q) = mset (map snd ?stored)"
    by (simp only: mset_map mset_db_query)
  note g = get_stock_data_known[OF assms, of e db]
  show ?thesis
  proof (intro conjI impI)
    assume "days \<le> int (length ?stored)"
    then have "days \<le> int (length ?q)" by (simp only: len)
    then have eq: "get_stock_data e db symbol days
                   = respond ?s all_columns (sort_key date (map snd ?q)) db []"
      unfolding g Let_def by (rule if_P)
    have r: "result (get_stock_data e db symbol days)
             = Inr \<lparr>resp_symbol = ?s, resp_days = length (sort_key date (map snd ?q)),
                    resp_columns = all_columns, resp_data = sort_key date (map snd ?q)\<rparr>"
      unfolding eq respond_def by simp
    have s: "sorted (map date (sort_key date (map snd ?q)))" by (rule sorted_sort_key)
    have m: "mset (sort_key date (map snd ?q)) = mset (map snd ?stored)"
      unfolding mset_sort by (rule ms)
    show "\<exists>resp. result (get_stock_data e db symbol days) = Inr resp
                    \<and> sorted (map date (resp_data resp))
                    \<and> mset (resp_data resp) = mset (map snd ?stored)"
      using r s m by simp
    show "trace (get_stock_data e db symbol days) = []" unfolding eq respond_def by simp
    show "store (get_stock_data e db symbol days) = db" unfolding eq respond_def by simp
  next
    assume "int (length ?stored) < days"
    then have "\<not> days \<le> int (length ?q)" by (simp add: len)
    then have "get_stock_data e db symbol days = fetch_and_save e db ?s days ?q"
      unfolding g Let_def by (rule if_not_P)
    then show "Fetch ?s \<in> set (trace (get_stock_data e db symbol days))"
      by (simp only: fetch_in_trace)
  qed
qed

text \<open>Two stored rows: enough for two days, not enough for three.\<close>

theorem sufficiency_witness:
  "normalize ''TCS'' \<in> set get_available_companies
   \<and> trace (get_stock_data (tcs_env 10 NoFault) two_rows ''TCS'' 2) = []
   \<and> store (get_stock_data (tcs_env 10 NoFault) two_rows ''TCS'' 2) = two_rows
   \<and> Fetch ''TCS'' \<in> set (trace (get_stock_data (tcs_env 10 NoFault) two_rows ''TCS'' 3))"
proof -
  have k: "normalize ''TCS'' \<in> set get_available_companies" by (simp add: tcs_known)
  have a: "(2::int) \<le> int (length (filter (\<lambda>r. fst r = normalize ''TCS''
              \<and> today (tcs_env 10 NoFault) - 2 \<le> date (snd r)) two_rows))"
    by (simp add: tcs_known two_rows_def tcs_env_def enriched_def)
  have b: "int (length (filter (\<lambda>r. fst r = normalize ''TCS''
              \<and> today (tcs_env 10 NoFault) - 3 \<le> date (snd r)) two_rows)) < 3"
    by (simp add: tcs_known two_rows_def tcs_env_def enriched_def)
  from sufficiency[OF k, of 2 "tcs_env 10 NoFault" two_rows] a
       sufficiency[OF k, of 3 "tcs_env 10 NoFault" two_rows] b
  show ?thesis by (simp add: tcs_known)
qed

subsection \<open>Order and length of the answer\<close>

text \<open>
  C7, as the code has it. Every successful answer is in ascending date order. When the
  collector was called its length is at most \<open>days\<close>; when the answer comes from the
  store it holds every stored row of the window, so its length is at least \<open>days\<close>.
\<close>

theorem order_and_length:
  assumes "result (get_stock_data e db symbol days) = Inr resp"
  shows "sorted (map date (resp_data resp))
       \<and> (Fetch (normalize symbol) \<in> set (trace (get_stock_data e db symbol days))
            \<longrightarrow> int (length (resp_data resp)) \<le> days)
       \<and> (Fetch (normalize symbol) \<notin> set (trace (get_stock_data e db symbol days))
            \<longrightarrow> days \<le> int (length (resp_data resp)))"
proof -
  let ?s = "normalize symbol"
  let ?q = "db_query db ?s (today e - days)"
  from get_stock_data_ok_cases[OF assms]
  have k: "?s \<in> set get_available_companies" and d1: "1 \<le> days" and d2: "days \<le> 365" by auto
  note g = get_stock_data_known[OF k d1 d2, of e db]
  show ?thesis
  proof (cases "days \<le> int (length ?q)")
    case True
    then have eq: "get_stock_data e db symbol days
                   = respond ?s all_columns (sort_key date (map snd ?q)) db []"
      using g by (simp add: Let_def)
    with assms have r: "resp_data resp = sort_key date (map snd ?q)"
      by (auto simp: respond_def)
    show ?thesis using True by (simp add: r eq respond_def)
  next
    case False
    then have eq: "get_stock_data e db symbol days = fetch_and_save e db ?s days ?q"
      using g by (simp add: Let_def)
    with assms have ok: "result (fetch_and_save e db ?s days ?q) = Inr resp" by simp
    have "sorted (map date (resp_data resp))"
      by (rule fetch_and_save_ok(1)[OF ok])
    moreover have "int (length (resp_data resp)) \<le> days"
      by (rule fetch_and_save_ok(2)[OF ok d1])
    ultimately show ?thesis by (simp add: eq fetch_in_trace)
  qed
qed

text \<open>One answer from the store (two rows for one day) and one after a fetch.\<close>

theorem order_and_length_witness:
  "result (get_stock_data (tcs_env 10 NoFault) two_rows ''TCS'' 1)
     = Inr \<lparr>resp_symbol = ''TCS'', resp_days = 2, resp_columns = all_columns,
            resp_data = [enriched 9, enriched 10]\<rparr>
   \<and> Fetch (normalize ''TCS'') \<notin> set (trace (get_stock_data (tcs_env 10 NoFault) two_rows ''TCS'' 1))
   \<and> sorted (map date [enriched 9, enriched 10])
   \<and> (1::int) \<le> int (length [enriched 9, enriched 10])
   \<and> result (get_stock_data (tcs_env 10 NoFault) [] ''TCS'' 5)
     = Inr \<lparr>resp_symbol = ''TCS'', resp_days = 5, resp_columns = all_columns,
            resp_data = [enriched 6, enriched 7, enriched 8, enriched 9, enriched 10]\<rparr>
   \<and> Fetch (normalize ''TCS'') \<in> set (trace (get_stock_data (tcs_env 10 NoFault) [] ''TCS'' 5))
   \<and> int (length [enriched 6, enriched 7, enriched 8, enriched 9, enriched 10]) \<le> 5"
proof -
  have r1: "result (get_stock_data (tcs_env 10 NoFault) two_rows ''TCS'' 1)
     = Inr \<lparr>resp_symbol = ''TCS'', resp_days = 2, resp_columns = all_columns,
            resp_data = [enriched 9, enriched 10]\<rparr>"
    by (simp add: hit_two respond_def)
  have t1: "Fetch (normalize ''TCS'') \<notin> set (trace (get_stock_data (tcs_env 10 NoFault) two_rows ''TCS'' 1))"
    by (simp add: hit_two respond_def)
  have r2: "result (get_stock_data (tcs_env 10 NoFault) [] ''TCS'' 5)
     = Inr \<lparr>resp_symbol = ''TCS'', resp_days = 5, resp_columns = all_columns,
            resp_data = [enriched 6, enriched 7, enriched 8, enriched 9, enriched 10]\<rparr>"
    by (simp add: first_request respond_def)
  have t2: "Fetch (normalize ''TCS'') \<in> set (trace (get_stock_data (tcs_env 10 NoFault) [] ''TCS'' 5))"
    by (simp add: first_request respond_def tcs_known)
  from order_and_length[OF r1] order_and_length[OF r2] r1 r2 t1 t2
  show ?thesis by simp
qed

text \<open>C7 as stated fails on the path that answers from the store: with the bars of
  days 9 and 10 stored, the request for one day on day 10 succeeds with two rows.\<close>

theorem hit_path_length_counterexample:
  "\<not> isl (result (get_stock_data (tcs_env 10 NoFault) two_rows ''TCS'' 1))
   \<and> \<not> int (length (resp_data (projr (result (get_stock_data (tcs_env 10 NoFault) two_rows ''TCS'' 1))))) \<le> 1"
  by (simp add: hit_two respond_def)

subsection \<open>What a fetch stores\<close>

text \<open>
  C2, as the code has it. On a miss with no stored row of the ticker, when the write
  succeeds, the frame is trimmed to its last \<open>days\<close> rows before the merge: the answer is
  those rows in ascending date order, and exactly those rows are appended to the store,
  \<open>min days n\<close> of the \<open>n\<close> processed rows.
\<close>

theorem trimmed_rows_are_stored:
  assumes "normalize symbol \<in> set get_available_companies" and "1 \<le> days" and "days \<le> 365"
      and "\<forall>r\<in>set db. fst r \<noteq> normalize symbol"
      and "fetch_stock_data (history e) (normalize symbol) = Some df0"
      and "process_data (Some df0) = Some df1"
      and "{Date, Open, High, Low, Close, Volume} \<subseteq> set (columns df1)"
      and "\<forall>r\<in>set (rows df1). volume r \<noteq> PInf \<and> volume r \<noteq> NInf"
      and "distinct (map date (rows df1))"
      and "write_fault e = NoFault"
  shows "store (get_stock_data e db symbol days)
           = db @ map (stock_data (normalize symbol) (columns df1))
                    (trim days (sort_key date (rows df1)))
       \<and> (\<exists>resp. result (get_stock_data e db symbol days) = Inr resp
              \<and> resp_data resp = trim days (sort_key date (rows df1)))
       \<and> int (length (trim days (sort_key date (rows df1)))) = min days (int (length (rows df1)))"
proof -
  let ?s = "normalize symbol"
  let ?rs = "trim days (sort_key date (rows df1))"
  let ?new = "map (stock_data ?s (columns df1)) ?rs"
  have q: "db_query db ?s (today e - days) = []"
    using assms(4) by (auto simp: db_query_def filter_empty_conv)
  have eq: "get_stock_data e db symbol days = fetch_and_save e db ?s days []"
    using assms(2) unfolding get_stock_data_known[OF assms(1-3)] Let_def q by simp
  have hd: "has Date df1" using assms(7) by (simp add: has_def)
  have sub: "set ?rs \<subseteq> set (rows df1)"
    by (auto simp: trim_def tail_is_drop dest: in_set_dropD)
  have nr: "new_records ?s (columns df1) [] ?rs = Some ?new"
    using new_records_all[of "columns df1" ?rs ?s "[]"] assms(7,8) sub by auto
  have dk: "distinct (map key ?new)"
  proof -
    have "map key ?new = map (\<lambda>r. (?s, date r)) ?rs" by (simp add: key_stock_data)
    also have "\<dots> = map (Pair ?s) (map date ?rs)" by simp
    finally show ?thesis
      using distinct_dates_trim[OF assms(9), of days] by (simp add: distinct_map inj_on_def)
  qed
  have nk: "\<not> list_ex (\<lambda>k. k \<in> set (map key db)) (map key ?new)"
    using assms(4) by (auto simp: list_ex_iff key_def stock_data_def)
  have m: "merge_records NoFault db ?s [] (columns df1) ?rs
           = (if ?rs = [] then Saved db [] else Saved (db @ ?new) [Commit (length ?new)])"
    using nr dk nk by (simp add: merge_records_def bulk_save_def violates_unique_def)
  have f: "fetch_and_save e db ?s days []
           = respond ?s (columns df1) ?rs (db @ ?new)
               (Fetch ?s # (if ?rs = [] then [] else [Commit (length ?new)]))"
    unfolding fetch_and_save_eval[OF assms(5,6) hd] assms(10) m by simp
  show ?thesis
    unfolding eq f using length_trim_eq[OF assms(2), of "sort_key date (rows df1)"]
    by (simp add: respond_def)
qed

text \<open>Ten fetched bars and a request for five days, beside a stored row of another
  ticker: the bars of days 6 to 10 are stored.\<close>

theorem trimmed_rows_are_stored_witness:
  "store (get_stock_data (tcs_env 10 NoFault) [(''INFY'', enriched 3)] ''TCS'' 5)
     = [(''INFY'', enriched 3), (''TCS'', enriched 6), (''TCS'', enriched 7), (''TCS'', enriched 8),
        (''TCS'', enriched 9), (''TCS'', enriched 10)]
   \<and> length (rows ten_frame) = 10"
proof -
  let ?e = "tcs_env 10 NoFault"
  let ?df1 = "\<lparr>columns = all_columns,
               rows = [enriched 1, enriched 2, enriched 3, enriched 4, enriched 5, enriched 6,
                       enriched 7, enriched 8, enriched 9, enriched 10]\<rparr>"
  have k: "normalize ''TCS'' \<in> set get_available_companies" by (simp add: tcs_known)
  have e: "\<forall>r\<in>set [(''INFY'', enriched 3)]. fst r \<noteq> normalize ''TCS''"
    by (simp add: tcs_known)
  have f: "fetch_stock_data (history ?e) (normalize ''TCS'') = Some ten_frame"
    by (simp only: tcs_known fetch_tcs)
  have c: "{Date, Open, High, Low, Close, Volume} \<subseteq> set (columns ?df1)"
    by (simp add: all_columns_def)
  have v: "\<forall>r\<in>set (rows ?df1). volume r \<noteq> PInf \<and> volume r \<noteq> NInf"
    by (simp add: enriched_def)
  have d: "distinct (map date (rows ?df1))" by (simp add: date_enriched)
  have w: "write_fault ?e = NoFault" by (simp add: tcs_env_def)
  from trimmed_rows_are_stored[OF k _ _ e f process_ten c v d w, of 5]
  have "store (get_stock_data ?e [(''INFY'', enriched 3)] ''TCS'' 5)
        = [(''INFY'', enriched 3)] @ map (stock_data (normalize ''TCS'') (columns ?df1))
             (trim 5 (sort_key date (rows ?df1)))"
    by simp
  then show ?thesis
    by (simp only: frame.simps trim_ten tcs_known list.map stock_data_enriched append.simps)
       (simp add: ten_frame_def ten_bars_def)
qed

text \<open>C2 as stated fails: the fetcher returns ten bars for a request of five days on
  an empty store, the answer is the bars of days 6 to 10, and the store does not hold
  ten rows afterwards.\<close>

theorem all_fetched_rows_stored_counterexample:
  "length (rows ten_frame) = 10
   \<and> map date (resp_data (projr (result (get_stock_data (tcs_env 10 NoFault) [] ''TCS'' 5))))
       = [6, 7, 8, 9, 10]
   \<and> length (store (get_stock_data (tcs_env 10 NoFault) [] ''TCS'' 5)) \<noteq> 10"
  by (simp add: first_request respond_def ten_frame_def ten_bars_def date_enriched)

subsection \<open>A failing write\<close>

text \<open>
  C3, as the code has it. For a request that reaches the write with at least one new
  record: an \<^verbatim>\<open>IntegrityError\<close> is rolled back, logged as a warning and swallowed, and the
  fetched and trimmed series is the successful answer; any other failure of the write is
  rolled back, logged as an error and raised again, and the request ends with status
  500. In both cases the store is unchanged.
\<close>

theorem write_failure:
  assumes "normalize symbol \<in> set get_available_companies" and "1 \<le> days" and "days \<le> 365"
      and "int (length (filter (\<lambda>r. fst r = normalize symbol \<and> today e - days \<le> date (snd r)) db)) < days"
      and "fetch_stock_data (history e) (normalize symbol) = Some df0"
      and "process_data (Some df0) = Some df1"
      and "has Date df1"
      and "new_records (normalize symbol) (columns df1)
             (map (\<lambda>r. date (snd r)) (db_query db (normalize symbol) (today e - days)))
             (trim days (sort_key date (rows df1))) = Some new"
      and "new \<noteq> []"
  shows "(write_fault e = IntegrityFault \<or> (write_fault e = NoFault \<and> violates_unique db new)
            \<longrightarrow> (\<exists>resp. result (get_stock_data e db symbol days) = Inr resp
                     \<and> resp_data resp = trim days (sort_key date (rows df1)))
                \<and> store (get_stock_data e db symbol days) = db
                \<and> trace (get_stock_data e db symbol days)
                    = [Fetch (normalize symbol), Rollback, LogWarning])
       \<and> (write_fault e = OtherFault
            \<longrightarrow> result (get_stock_data e db symbol days) = Inl (HTTPException 500)
                \<and> store (get_stock_data e db symbol days) = db
                \<and> trace (get_stock_data e db symbol days)
                    = [Fetch (normalize symbol), Rollback, LogError])"
proof -
  let ?s = "normalize symbol"
  let ?q = "db_query db ?s (today e - days)"
  let ?rs = "trim days (sort_key date (rows df1))"
  have "\<not> days \<le> int (length ?q)" using assms(4) by (simp add: length_db_query)
  then have eq: "get_stock_data e db symbol days = fetch_and_save e db ?s days ?q"
    unfolding get_stock_data_known[OF assms(1-3)] Let_def by simp
  note f = fetch_and_save_eval[OF assms(5-7), of db days ?q]
  show ?thesis
  proof (intro conjI impI)
    assume a: "write_fault e = IntegrityFault \<or> (write_fault e = NoFault \<and> violates_unique db new)"
    then have "merge_records (write_fault e) db ?s ?q (columns df1) ?rs = Saved db [Rollback, LogWarning]"
      using assms(8,9) by (auto simp: merge_records_def bulk_save_def)
    then have r: "get_stock_data e db symbol days
                  = respond ?s (columns df1) ?rs db [Fetch ?s, Rollback, LogWarning]"
      unfolding eq f by simp
    show "\<exists>resp. result (get_stock_data e db symbol days) = Inr resp \<and> resp_data resp = ?rs"
      unfolding r by (simp add: respond_def)
    show "store (get_stock_data e db symbol days) = db" unfolding r by simp
    show "trace (get_stock_data e db symbol days) = [Fetch ?s, Rollback, LogWarning]"
      unfolding r by (simp add: respond_def)
  next
    assume a: "write_fault e = OtherFault"
    then have "merge_records (write_fault e) db ?s ?q (columns df1) ?rs = Raises [Rollback, LogError]"
      using assms(8,9) by (simp add: merge_records_def bulk_save_def)
    then have r: "get_stock_data e db symbol days = failed 500 db [Fetch ?s, Rollback, LogError]"
      unfolding eq f by simp
    show "result (get_stock_data e db symbol days) = Inl (HTTPException 500)"
      unfolding r by (simp add: failed_def)
    show "store (get_stock_data e db symbol days) = db" unfolding r by simp
    show "trace (get_stock_data e db symbol days) = [Fetch ?s, Rollback, LogError]"
      unfolding r by (simp add: failed_def)
  qed
qed

text \<open>A batch that collides with a stored row, and a write that fails otherwise.\<close>

theorem write_failure_witness:
  "violates_unique [(''TCS'', enriched 6)]
     [(''TCS'', enriched 6), (''TCS'', enriched 7), (''TCS'', enriched 8), (''TCS'', enriched 9),
      (''TCS'', enriched 10)]
   \<and> store (get_stock_data (tcs_env 12 NoFault) [(''TCS'', enriched 6)] ''TCS'' 5)
       = [(''TCS'', enriched 6)]
   \<and> trace (get_stock_data (tcs_env 12 NoFault) [(''TCS'', enriched 6)] ''TCS'' 5)
       = [Fetch ''TCS'', Rollback, LogWarning]
   \<and> \<not> isl (result (get_stock_data (tcs_env 12 NoFault) [(''TCS'', enriched 6)] ''TCS'' 5))
   \<and> result (get_stock_data (tcs_env 10 OtherFault) [] ''TCS'' 5) = Inl (HTTPException 500)
   \<and> store (get_stock_data (tcs_env 10 OtherFault) [] ''TCS'' 5) = []"
proof -
  let ?five = "[enriched 6, enriched 7, enriched 8, enriched 9, enriched 10]"
  let ?new = "[(''TCS'', enriched 6), (''TCS'', enriched 7), (''TCS'', enriched 8),
               (''TCS'', enriched 9), (''TCS'', enriched 10)]"
  let ?df1 = "\<lparr>columns = all_columns,
               rows = [enriched 1, enriched 2, enriched 3, enriched 4, enriched 5, enriched 6,
                       enriched 7, enriched 8, enriched 9, enriched 10]\<rparr>"
  have k: "normalize ''TCS'' \<in> set get_available_companies" by (simp add: tcs_known)
  have vu: "violates_unique [(''TCS'', enriched 6)] ?new"
    by (simp add: violates_unique_def key_def date_enriched)
  have miss1: "int (length (filter (\<lambda>r. fst r = normalize ''TCS''
                  \<and> today (tcs_env 12 NoFault) - 5 \<le> date (snd r)) [(''TCS'', enriched 6)])) < 5"
    by (simp add: tcs_env_def date_enriched)
  have miss2: "int (length (filter (\<lambda>r. fst r = normalize ''TCS''
                  \<and> today (tcs_env 10 OtherFault) - 5 \<le> date (snd r)) [])) < 5"
    by simp
  have f: "fetch_stock_data (history (tcs_env t x)) (normalize ''TCS'') = Some ten_frame" for t x
    by (simp only: tcs_known fetch_tcs)
  have n1: "new_records (normalize ''TCS'') (columns ?df1)
              (map (\<lambda>r. date (snd r))
                 (db_query [(''TCS'', enriched 6)] (normalize ''TCS'') (today (tcs_env 12 NoFault) - 5)))
              (trim 5 (sort_key date (rows ?df1))) = Some ?new"
    unfolding frame.simps trim_ten tcs_known
    by (simp add: db_query_def tcs_env_def date_enriched to_record_enriched)
  have n2: "new_records (normalize ''TCS'') (columns ?df1)
              (map (\<lambda>r. date (snd r))
                 (db_query [] (normalize ''TCS'') (today (tcs_env 10 OtherFault) - 5)))
              (trim 5 (sort_key date (rows ?df1))) = Some ?new"
    unfolding frame.simps trim_ten tcs_known
    by (simp add: db_query_def to_record_enriched)
  have ne: "?new \<noteq> []" by simp
  have w1: "write_fault (tcs_env 12 NoFault) = NoFault" by (simp add: tcs_env_def)
  have w2: "write_fault (tcs_env 10 OtherFault) = OtherFault" by (simp add: tcs_env_def)
  from write_failure[OF k _ _ miss1 f process_ten has_date_all n1 ne]
       write_failure[OF k _ _ miss2 f process_ten has_date_all n2 ne] vu w1 w2
  show ?thesis by (auto simp: tcs_known)
qed

text \<open>C3 as stated fails: a write that fails with something other than an
  \<^verbatim>\<open>IntegrityError\<close> ends the request with status 500.\<close>

theorem write_failure_counterexample:
  "result (get_stock_data (tcs_env 10 OtherFault) [] ''TCS'' 5) = Inl (HTTPException 500)
   \<and> trace (get_stock_data (tcs_env 10 OtherFault) [] ''TCS'' 5) = [Fetch ''TCS'', Rollback, LogError]"
  by (simp add: failing_request failed_def)

subsection \<open>Merging twice\<close>

text \<open>
  C8. Repeating a request against the store the first request left changes nothing: the
  second merge inserts no row, so the row count is that after one merge. The rows a
  request does insert never have a symbol and date that the store already held.
\<close>

theorem merge_idempotent:
  "store (get_stock_data e (store (get_stock_data e db symbol days)) symbol days)
     = store (get_stock_data e db symbol days)
   \<and> (\<exists>new. store (get_stock_data e db symbol days) = db @ new
          \<and> (\<forall>x\<in>set new. key x \<notin> key ` set db))"
proof (cases "normalize symbol \<in> set get_available_companies \<and> 1 \<le> days \<and> days \<le> 365")
  case False
  from get_stock_data_unknown[OF False] have "\<And>d. store (get_stock_data e d symbol days) = d"
    by (metis store_failed)
  then show ?thesis by simp
next
  case True
  then have k: "normalize symbol \<in> set get_available_companies" and d1: "1 \<le> days"
    and d2: "days \<le> 365" by auto
  let ?s = "normalize symbol"
  let ?c = "today e - days"
  note g = get_stock_data_known[OF k d1 d2]
  show ?thesis
  proof (cases "days \<le> int (length (db_query db ?s ?c))")
    case True
    then have "store (get_stock_data e db symbol days) = db"
      unfolding g Let_def by simp
    then show ?thesis by simp
  next
    case False
    then have eq: "get_stock_data e db symbol days = fetch_and_save e db ?s days (db_query db ?s ?c)"
      unfolding g Let_def by simp
    show ?thesis
    proof (cases rule: fetch_and_save_cases[where e = e and db = db and s = "?s" and days = days
                             and recs = "db_query db ?s ?c"])
      case (Failed c evs)
      with eq have "store (get_stock_data e db symbol days) = db" by simp
      then show ?thesis by simp
    next
      case (Merged df0 df1 db2 evs)
      with eq have st: "store (get_stock_data e db symbol days) = db2" by simp
      from merge_records_store[OF Merged(4)]
      have part2: "\<exists>new. db2 = db @ new \<and> (\<forall>x\<in>set new. key x \<notin> key ` set db)" .
      from merge_records_again[OF Merged(4)] obtain evs2 where
        again: "merge_records (write_fault e) db2 ?s (db_query db2 ?s ?c) (columns df1)
                  (trim days (sort_key date (rows df1))) = Saved db2 evs2" ..
      have "store (get_stock_data e db2 symbol days) = db2"
      proof (cases "days \<le> int (length (db_query db2 ?s ?c))")
        case True
        then show ?thesis unfolding g Let_def by simp
      next
        case False
        then have "get_stock_data e db2 symbol days
                   = fetch_and_save e db2 ?s days (db_query db2 ?s ?c)"
          unfolding g Let_def by simp
        then show ?thesis
          by (simp add: fetch_and_save_eval[OF Merged(1-3)] again)
      qed
      with st part2 show ?thesis by simp
    qed
  qed
qed

text \<open>On day 12 the bar of day 6 lies before the cutoff: the second request offers it
  again and the store rejects it.\<close>

theorem merge_idempotent_witness:
  "store (get_stock_data (tcs_env 12 NoFault)
            (store (get_stock_data (tcs_env 12 NoFault) [(''INFY'', enriched 6)] ''TCS'' 5)) ''TCS'' 5)
     = store (get_stock_data (tcs_env 12 NoFault) [(''INFY'', enriched 6)] ''TCS'' 5)
   \<and> (''TCS'', enriched 6) \<in> set (store (get_stock_data (tcs_env 12 NoFault) [(''INFY'', enriched 6)] ''TCS'' 5))
   \<and> key (''TCS'', enriched 6) \<notin> key ` set [(''INFY'', enriched 6)]"
proof -
  let ?e = "tcs_env 12 NoFault"
  let ?db = "[(''INFY'', enriched 6)]"
  let ?new = "[(''TCS'', enriched 6), (''TCS'', enriched 7), (''TCS'', enriched 8),
               (''TCS'', enriched 9), (''TCS'', enriched 10)]"
  have st: "store (get_stock_data ?e ?db ''TCS'' 5) = ?db @ ?new"
    by (simp add: first_request_general)
  from merge_idempotent[of ?e ?db "''TCS''" 5] obtain new where
    a: "store (get_stock_data ?e (store (get_stock_data ?e ?db ''TCS'' 5)) ''TCS'' 5)
          = store (get_stock_data ?e ?db ''TCS'' 5)"
    and b: "store (get_stock_data ?e ?db ''TCS'' 5) = ?db @ new"
    and c: "\<forall>x\<in>set new. key x \<notin> key ` set ?db"
    by blast
  from b st have "new = ?new" by simp
  with c have "key (''TCS'', enriched 6) \<notin> key ` set ?db" by simp
  with a st show ?thesis by simp
qed

section \<open>Comparison and summary\<close>

lemma compare_stocks_Inr:
  assumes "fst (compare_stocks e db s1 s2) = Inr c"
  shows "\<exists>d1 d2 corr.
           symbol1 c = upper s1 \<and> symbol2 c = upper s2
         \<and> symbol1_metrics c = calculate_performance_metrics d1
         \<and> symbol2_metrics c = calculate_performance_metrics d2
         \<and> insight c = make_insights (upper s1) (upper s2)
                          (calculate_performance_metrics d1) (calculate_performance_metrics d2) corr"
proof -
  let ?u1 = "upper s1" and ?u2 = "upper s2"
  from assms have k: "?u1 \<in> set get_available_companies" "?u2 \<in> set get_available_companies"
    by (auto simp: compare_stocks_def Let_def split: if_splits)
  obtain r1 f1 where g1: "get_stock_df e db ?u1 = (r1, f1)" by (cases "get_stock_df e db ?u1")
  obtain r2 f2 where g2: "get_stock_df e db ?u2 = (r2, f2)" by (cases "get_stock_df e db ?u2")
  from assms k g1 obtain d1 where r1: "r1 = Inr d1"
    by (cases r1) (auto simp: compare_stocks_def Let_def)
  from assms k g1 g2 r1 obtain d2 where r2: "r2 = Inr d2"
    by (cases r2) (auto simp: compare_stocks_def Let_def)
  from assms k g1 g2 r1 r2
  have "c = \<lparr>symbol1 = ?u1, symbol2 = ?u2,
             correlation = round_real (calculate_correlation d1 d2) 4,
             symbol1_metrics = calculate_performance_metrics d1,
             symbol1_summary = get_summary_stats d1,
             symbol2_metrics = calculate_performance_metrics d2,
             symbol2_summary = get_summary_stats d2,
             insight = make_insights ?u1 ?u2 (calculate_performance_metrics d1)
                         (calculate_performance_metrics d2) (calculate_correlation d1 d2)\<rparr>"
    by (simp add: compare_stocks_def Let_def split: if_splits)
  then show ?thesis by auto
qed

lemma upper_tcs: "upper ''TCS'' = ''TCS''" "upper ''INFY'' = ''INFY''" "upper ''WIPRO'' = ''WIPRO''"
  by (simp_all add: upper_def upper_char_def)

lemma available: "''TCS'' \<in> set get_available_companies" "''INFY'' \<in> set get_available_companies"
  "''WIPRO'' \<in> set get_available_companies"
  by (simp_all add: get_available_companies_def INDIAN_STOCKS_def)

lemma not_empty_rising: "\<not> empty_df rising_frame"
  by (simp add: empty_df_def rising_frame_def raw_columns_def)

lemma process_rising: "process_data (Some rising_frame) = Some rising_processed"
  by (simp add: process_data_def clean_data_def calculate_daily_return_def
        calculate_moving_average_def calculate_volatility_score_def empty_df_def rising_frame_def
        rising_processed_def raw_columns_def all_columns_def all_na_def price_columns_def
        map_column_def assign_def ffill_def bfill_def isna_def mk_bar_def has_def add_col_def
        fsub_def fillna0_def rolling_def window_at_def prep_values_def is_inf_def pd_mean_def
        pd_std_def valid_def fsum_def
        Let_def)

lemma fetch_cmp:
  "fetch_stock_data (history cmp_env) ''TCS'' = Some rising_frame"
  "fetch_stock_data (history cmp_env) ''INFY'' = Some ten_frame"
  "fetch_stock_data (history cmp_env) ''WIPRO'' = Some ten_frame"
  by (simp_all add: fetch_stock_data_def cmp_env_def INDIAN_STOCKS_def upper_tcs not_empty_ten
        not_empty_rising)

lemma get_stock_df_cmp:
  "get_stock_df cmp_env [] ''TCS'' = (Inr (Some rising_processed), True)"
  "get_stock_df cmp_env [] ''INFY''
     = (Inr (Some \<lparr>columns = all_columns,
                    rows = [enriched 1, enriched 2, enriched 3, enriched 4, enriched 5, enriched 6,
                            enriched 7, enriched 8, enriched 9, enriched 10]\<rparr>), True)"
  "get_stock_df cmp_env [] ''WIPRO''
     = (Inr (Some \<lparr>columns = all_columns,
                    rows = [enriched 1, enriched 2, enriched 3, enriched 4, enriched 5, enriched 6,
                            enriched 7, enriched 8, enriched 9, enriched 10]\<rparr>), True)"
  by (simp_all add: get_stock_df_def db_all_def fetch_cmp not_empty_ten not_empty_rising
        process_ten process_rising)

lemma compare_stocks_eval:
  assumes "upper s1 \<in> set get_available_companies" and "upper s2 \<in> set get_available_companies"
      and "get_stock_df e db (upper s1) = (Inr (Some df1), f1)"
      and "get_stock_df e db (upper s2) = (Inr (Some df2), f2)"
      and "\<not> empty_df df1" and "\<not> empty_df df2"
  shows "fst (compare_stocks e db s1 s2)
   = Inr \<lparr>symbol1 = upper s1, symbol2 = upper s2,
          correlation = round_real (calculate_correlation (Some df1) (Some df2)) 4,
          symbol1_metrics = calculate_performance_metrics (Some df1),
          symbol1_summary = get_summary_stats (Some df1),
          symbol2_metrics = calculate_performance_metrics (Some df2),
          symbol2_summary = get_summary_stats (Some df2),
          insight = make_insights (upper s1) (upper s2)
                      (calculate_performance_metrics (Some df1))
                      (calculate_performance_metrics (Some df2))
                      (calculate_correlation (Some df1) (Some df2))\<rparr>"
  using assms by (simp add: compare_stocks_def Let_def)

lemma metrics_ten:
  "calculate_performance_metrics
     (Some \<lparr>columns = all_columns,
            rows = [enriched 1, enriched 2, enriched 3, enriched 4, enriched 5, enriched 6,
                    enriched 7, enriched 8, enriched 9, enriched 10]\<rparr>)
   = Some \<lparr>total_return_pct = Fin 0, avg_daily_return = Fin (1 / 20), volatility = Fin 0,
          max_price = Fin 105, min_price = Fin 105, avg_price = Fin 105\<rparr>"
  by (simp add: calculate_performance_metrics_def empty_df_def has_def all_columns_def enriched_def
        fsub_def round_half_even_def pd_mean_def pd_std_def pd_max_def pd_min_def valid_def
        isna_def fsum_def fmax_def fmin_def Let_def)

lemma metrics_rising:
  "calculate_performance_metrics (Some rising_processed)
   = Some \<lparr>total_return_pct = Fin 10, avg_daily_return = Fin 0, volatility = Fin 0,
          max_price = Fin 110, min_price = Fin 100, avg_price = Fin 105\<rparr>"
  by (simp add: calculate_performance_metrics_def empty_df_def has_def all_columns_def
        rising_processed_def mk_bar_def
        fsub_def round_half_even_def pd_mean_def pd_std_def pd_max_def pd_min_def valid_def
        isna_def fsum_def fmax_def fmin_def Let_def)

lemma not_empty_processed:
  "\<not> empty_df rising_processed"
  "\<not> empty_df \<lparr>columns = all_columns,
                rows = [enriched 1, enriched 2, enriched 3, enriched 4, enriched 5, enriched 6,
                        enriched 7, enriched 8, enriched 9, enriched 10]\<rparr>"
  by (simp_all add: empty_df_def rising_processed_def all_columns_def)

lemmas compare_tie =
  compare_stocks_eval[of "''INFY''" "''WIPRO''", unfolded upper_tcs,
    OF available(2) available(3) get_stock_df_cmp(2) get_stock_df_cmp(3)
       not_empty_processed(2) not_empty_processed(2)]

lemmas compare_first =
  compare_stocks_eval[of "''TCS''" "''INFY''", unfolded upper_tcs,
    OF available(1) available(2) get_stock_df_cmp(1) get_stock_df_cmp(2)
       not_empty_processed(1) not_empty_processed(2)]

lemmas compare_second =
  compare_stocks_eval[of "''INFY''" "''TCS''", unfolded upper_tcs,
    OF available(2) available(1) get_stock_df_cmp(2) get_stock_df_cmp(1)
       not_empty_processed(2) not_empty_processed(1)]




text \<open>The processor takes the 52-week values from \<^verbatim>\<open>high\<close> and \<^verbatim>\<open>low\<close> over the last
  252 rows (all rows of a shorter frame).\<close>

lemma processor_52week_window:
  assumes "has High df" and "has Low df"
  shows "high_52w (calculate_52week_high_low df)
           = pd_max (map high (drop (length (rows df) - 252) (rows df)))"
    and "low_52w (calculate_52week_high_low df)
           = pd_min (map low (drop (length (rows df) - 252) (rows df)))"
  using assms by (simp_all add: calculate_52week_high_low_def tail_def Let_def)

text \<open>
  C4 at a stored series of one bar with high 110, low 90 and close 100: the summary route
  answers 100 for both \<^verbatim>\<open>high_52w\<close> and \<^verbatim>\<open>low_52w\<close> (it reads \<^verbatim>\<open>close\<close>), where the
  processor on the same rows gives 110 and 90.
\<close>

theorem summary_uses_close:
  "get_stock_summary one_row ''TCS''
     = Inr (''TCS'', \<lparr>high_52w = Fin 100, low_52w = Fin 100, avg_close = Fin 100, current_close = Fin 100\<rparr>)
   \<and> calculate_52week_high_low \<lparr>columns = all_columns, rows = map snd one_row\<rparr>
     = \<lparr>high_52w = Fin 110, low_52w = Fin 90\<rparr>"
  by (simp add: get_stock_summary_def upper_tcs db_all_def one_row_def mk_bar_def pd_max_def pd_min_def
        pd_mean_def valid_def isna_def fsum_def calculate_52week_high_low_def has_def all_columns_def)

end
